theory Spec2Isabelle
  imports Main "HOL-Library.AList"
begin

section \<open>The document model seen by the compiler\<close>

text \<open>
  Extension values are \<^verbatim>\<open>interface{}\<close> in the source; \<^verbatim>\<open>decodeYamlNode\<close> decodes
  them into a string, a boolean, a list of strings or a map of strings. A value of any other shape is
  \<open>ExtOther\<close>.
\<close>

datatype ext_value =
  ExtString string | ExtBool bool | ExtStrings "string list" | ExtMap "(string \<times> string) list"
  | ExtOther

text \<open>Enum literals, decoded from the document to native values.\<close>

datatype literal = LitString string | LitInt int | LitBool bool | LitNil

text \<open>
  \<^verbatim>\<open>openapi.Discriminator\<close>: the property name and the explicit mapping, an ordered map
  that may be absent.
\<close>

datatype ODiscriminator = MkODiscriminator
  (PropertyName: string)
  (oMapping: "(string \<times> string) list option")

text \<open>
  \<^verbatim>\<open>openapi.SchemaRef\<close> and \<^verbatim>\<open>openapi.Schema\<close>. A pointer that may be nil is an
  \<open>option\<close>; a slice or ordered map that the source tests against nil is an \<open>option\<close>
  of a list. \<open>oAddr\<close> is the identity of the schema object (its address), which the
  prune walk uses as the key of its visited set. The selectors of \<^verbatim>\<open>openapi.Schema\<close>
  carry the prefix \<open>o\<close>, those of the compatibility fields of \<^verbatim>\<open>SchemaRef\<close> the
  prefix \<open>r\<close>.
\<close>

datatype SchemaRef = MkSchemaRef
  (Ref: string)
  (Value: "OSchema option")
  (rItems: "SchemaRef option")
  (rAdditionalPropertiesHas: bool)
  (rAdditionalPropertiesSchema: "SchemaRef option")
  (rOneOf: "SchemaRef list")
  (rAnyOf: "SchemaRef list")
  (rAllOf: "SchemaRef list")
  (rNot: "SchemaRef option")
and OSchema = MkOSchema
  (oAddr: nat)
  (oType: "string list")
  (oFormat: string)
  (oDescription: string)
  (oNullable: bool)
  (oReadOnly: "bool option")
  (oWriteOnly: "bool option")
  (oDeprecated: "bool option")
  (oExtensions: "(string \<times> ext_value) list")
  (oAdditionalPropertiesHas: bool)
  (oAdditionalPropertiesSchema: "SchemaRef option")
  (oDiscriminator: "ODiscriminator option")
  (oItems: "SchemaRef option")
  (oAnyOf: "SchemaRef list option")
  (oOneOf: "SchemaRef list option")
  (oAllOf: "SchemaRef list option")
  (oProperties: "(string \<times> SchemaRef) list option")
  (oRequired: "string list option")
  (oEnum: "literal list")

text \<open>The zero value of \<^verbatim>\<open>openapi.Schema\<close>, and \<^verbatim>\<open>openapi.NewSchemaRef\<close>.\<close>

definition zeroOSchema :: OSchema where
  "zeroOSchema = MkOSchema 0 [] [] [] False None None None [] False None None None None None
     None None None []"

definition NewSchemaRef :: "string \<Rightarrow> OSchema option \<Rightarrow> SchemaRef" where
  "NewSchemaRef ref schema = MkSchemaRef ref schema None False None [] [] [] None"

definition set_oType :: "string list \<Rightarrow> OSchema \<Rightarrow> OSchema" where
  "set_oType v s = MkOSchema (oAddr s) v (oFormat s) (oDescription s) (oNullable s)
     (oReadOnly s) (oWriteOnly s) (oDeprecated s) (oExtensions s)
     (oAdditionalPropertiesHas s) (oAdditionalPropertiesSchema s) (oDiscriminator s)
     (oItems s) (oAnyOf s) (oOneOf s) (oAllOf s) (oProperties s) (oRequired s) (oEnum s)"

definition set_oNullable :: "bool \<Rightarrow> OSchema \<Rightarrow> OSchema" where
  "set_oNullable v s = MkOSchema (oAddr s) (oType s) (oFormat s) (oDescription s) v
     (oReadOnly s) (oWriteOnly s) (oDeprecated s) (oExtensions s)
     (oAdditionalPropertiesHas s) (oAdditionalPropertiesSchema s) (oDiscriminator s)
     (oItems s) (oAnyOf s) (oOneOf s) (oAllOf s) (oProperties s) (oRequired s) (oEnum s)"

definition set_oProperties :: "(string \<times> SchemaRef) list option \<Rightarrow> OSchema \<Rightarrow> OSchema" where
  "set_oProperties v s = MkOSchema (oAddr s) (oType s) (oFormat s) (oDescription s)
     (oNullable s) (oReadOnly s) (oWriteOnly s) (oDeprecated s) (oExtensions s)
     (oAdditionalPropertiesHas s) (oAdditionalPropertiesSchema s) (oDiscriminator s)
     (oItems s) (oAnyOf s) (oOneOf s) (oAllOf s) v (oRequired s) (oEnum s)"

definition set_oRequired :: "string list option \<Rightarrow> OSchema \<Rightarrow> OSchema" where
  "set_oRequired v s = MkOSchema (oAddr s) (oType s) (oFormat s) (oDescription s)
     (oNullable s) (oReadOnly s) (oWriteOnly s) (oDeprecated s) (oExtensions s)
     (oAdditionalPropertiesHas s) (oAdditionalPropertiesSchema s) (oDiscriminator s)
     (oItems s) (oAnyOf s) (oOneOf s) (oAllOf s) (oProperties s) v (oEnum s)"

text \<open>The accessors of \<^verbatim>\<open>adapter.go\<close>.\<close>

definition TypeIs :: "OSchema \<Rightarrow> string \<Rightarrow> bool" where
  "TypeIs s typeStr = (typeStr \<in> set (oType s))"

definition TypeSlice :: "OSchema \<Rightarrow> string list" where
  "TypeSlice s = oType s"

text \<open>
  \<^verbatim>\<open>PropertiesToMap\<close> leaves out a property whose schema does not resolve
  (\<^verbatim>\<open>SchemaProxyToRefWithVisited\<close> returns nil for it).
\<close>

definition PropertiesToMap :: "OSchema \<Rightarrow> (string \<times> SchemaRef) list option" where
  "PropertiesToMap s =
     (case oProperties s of
        None \<Rightarrow> None
      | Some ps \<Rightarrow> Some (filter (\<lambda>kv. Value (snd kv) \<noteq> None) ps))"

definition IsReadOnly :: "OSchema \<Rightarrow> bool" where
  "IsReadOnly s = (case oReadOnly s of None \<Rightarrow> False | Some b \<Rightarrow> b)"

definition IsWriteOnly :: "OSchema \<Rightarrow> bool" where
  "IsWriteOnly s = (case oWriteOnly s of None \<Rightarrow> False | Some b \<Rightarrow> b)"

definition IsDeprecated :: "OSchema \<Rightarrow> bool" where
  "IsDeprecated s = (case oDeprecated s of None \<Rightarrow> False | Some b \<Rightarrow> b)"

definition MappingToMap :: "ODiscriminator \<Rightarrow> (string \<times> string) list" where
  "MappingToMap d = (case oMapping d of None \<Rightarrow> [] | Some m \<Rightarrow> m)"


section \<open>The compiler's output\<close>

text \<open>
  \<^verbatim>\<open>Discriminator\<close>, \<^verbatim>\<open>Schema\<close>, \<^verbatim>\<open>Property\<close> and \<^verbatim>\<open>TypeDefinition\<close> of
  \<^verbatim>\<open>schema.go\<close>. A Go map is an association list with distinct keys, written with
  \<^const>\<open>AList.update\<close>; its length is the number of keys. \<open>OAPISchema\<close> holds the
  schema node the descriptor was compiled from.
\<close>

datatype Discriminator = MkDiscriminator
  (Mapping: "(string \<times> string) list")
  (Property: string)

datatype Schema = MkSchema
  (GoType: string)
  (RefType: string)
  (ArrayType: "Schema option")
  (EnumValues: "(string \<times> string) list")
  (Properties: "Property list")
  (HasAdditionalProperties: bool)
  (AdditionalPropertiesType: "Schema option")
  (AdditionalTypes: "TypeDefinition list")
  (EmbeddedTypes: "string list")
  (SkipOptionalPointer: bool)
  (Description: string)
  (UnionElements: "string list")
  (Discriminator: "Discriminator option")
  (DefineViaAlias: bool)
  (OAPISchema: "OSchema option")
and Property = MkProperty
  (pDescription: string)
  (JsonFieldName: string)
  (pSchema: Schema)
  (Required: bool)
  (Nullable: bool)
  (ReadOnly: bool)
  (WriteOnly: bool)
  (NeedsFormTag: bool)
  (pExtensions: "(string \<times> ext_value) list")
  (Deprecated: bool)
and TypeDefinition = MkTypeDefinition
  (TypeName: string)
  (JsonName: string)
  (tdSchema: Schema)

text \<open>The zero value \<^verbatim>\<open>Schema{}\<close>, and one assignment for each field the compiler writes.\<close>

definition zeroSchema :: Schema where
  "zeroSchema = MkSchema [] [] None [] [] False None [] [] False [] [] None False None"

definition set_GoType :: "string \<Rightarrow> Schema \<Rightarrow> Schema" where
  "set_GoType v s = MkSchema v (RefType s) (ArrayType s) (EnumValues s) (Properties s)
     (HasAdditionalProperties s) (AdditionalPropertiesType s) (AdditionalTypes s)
     (EmbeddedTypes s) (SkipOptionalPointer s) (Description s) (UnionElements s)
     (Discriminator s) (DefineViaAlias s) (OAPISchema s)"

definition set_RefType :: "string \<Rightarrow> Schema \<Rightarrow> Schema" where
  "set_RefType v s = MkSchema (GoType s) v (ArrayType s) (EnumValues s) (Properties s)
     (HasAdditionalProperties s) (AdditionalPropertiesType s) (AdditionalTypes s)
     (EmbeddedTypes s) (SkipOptionalPointer s) (Description s) (UnionElements s)
     (Discriminator s) (DefineViaAlias s) (OAPISchema s)"

definition set_ArrayType :: "Schema option \<Rightarrow> Schema \<Rightarrow> Schema" where
  "set_ArrayType v s = MkSchema (GoType s) (RefType s) v (EnumValues s) (Properties s)
     (HasAdditionalProperties s) (AdditionalPropertiesType s) (AdditionalTypes s)
     (EmbeddedTypes s) (SkipOptionalPointer s) (Description s) (UnionElements s)
     (Discriminator s) (DefineViaAlias s) (OAPISchema s)"

definition set_EnumValues :: "(string \<times> string) list \<Rightarrow> Schema \<Rightarrow> Schema" where
  "set_EnumValues v s = MkSchema (GoType s) (RefType s) (ArrayType s) v (Properties s)
     (HasAdditionalProperties s) (AdditionalPropertiesType s) (AdditionalTypes s)
     (EmbeddedTypes s) (SkipOptionalPointer s) (Description s) (UnionElements s)
     (Discriminator s) (DefineViaAlias s) (OAPISchema s)"

definition set_Properties :: "Property list \<Rightarrow> Schema \<Rightarrow> Schema" where
  "set_Properties v s = MkSchema (GoType s) (RefType s) (ArrayType s) (EnumValues s) v
     (HasAdditionalProperties s) (AdditionalPropertiesType s) (AdditionalTypes s)
     (EmbeddedTypes s) (SkipOptionalPointer s) (Description s) (UnionElements s)
     (Discriminator s) (DefineViaAlias s) (OAPISchema s)"

definition set_HasAdditionalProperties :: "bool \<Rightarrow> Schema \<Rightarrow> Schema" where
  "set_HasAdditionalProperties v s = MkSchema (GoType s) (RefType s) (ArrayType s)
     (EnumValues s) (Properties s) v (AdditionalPropertiesType s) (AdditionalTypes s)
     (EmbeddedTypes s) (SkipOptionalPointer s) (Description s) (UnionElements s)
     (Discriminator s) (DefineViaAlias s) (OAPISchema s)"

definition set_AdditionalPropertiesType :: "Schema option \<Rightarrow> Schema \<Rightarrow> Schema" where
  "set_AdditionalPropertiesType v s = MkSchema (GoType s) (RefType s) (ArrayType s)
     (EnumValues s) (Properties s) (HasAdditionalProperties s) v (AdditionalTypes s)
     (EmbeddedTypes s) (SkipOptionalPointer s) (Description s) (UnionElements s)
     (Discriminator s) (DefineViaAlias s) (OAPISchema s)"

definition set_AdditionalTypes :: "TypeDefinition list \<Rightarrow> Schema \<Rightarrow> Schema" where
  "set_AdditionalTypes v s = MkSchema (GoType s) (RefType s) (ArrayType s) (EnumValues s)
     (Properties s) (HasAdditionalProperties s) (AdditionalPropertiesType s) v
     (EmbeddedTypes s) (SkipOptionalPointer s) (Description s) (UnionElements s)
     (Discriminator s) (DefineViaAlias s) (OAPISchema s)"

definition set_EmbeddedTypes :: "string list \<Rightarrow> Schema \<Rightarrow> Schema" where
  "set_EmbeddedTypes v s = MkSchema (GoType s) (RefType s) (ArrayType s) (EnumValues s)
     (Properties s) (HasAdditionalProperties s) (AdditionalPropertiesType s)
     (AdditionalTypes s) v (SkipOptionalPointer s) (Description s) (UnionElements s)
     (Discriminator s) (DefineViaAlias s) (OAPISchema s)"

definition set_SkipOptionalPointer :: "bool \<Rightarrow> Schema \<Rightarrow> Schema" where
  "set_SkipOptionalPointer v s = MkSchema (GoType s) (RefType s) (ArrayType s) (EnumValues
     s) (Properties s) (HasAdditionalProperties s) (AdditionalPropertiesType s)
     (AdditionalTypes s) (EmbeddedTypes s) v (Description s) (UnionElements s)
     (Discriminator s) (DefineViaAlias s) (OAPISchema s)"

definition set_Description :: "string \<Rightarrow> Schema \<Rightarrow> Schema" where
  "set_Description v s = MkSchema (GoType s) (RefType s) (ArrayType s) (EnumValues s)
     (Properties s) (HasAdditionalProperties s) (AdditionalPropertiesType s)
     (AdditionalTypes s) (EmbeddedTypes s) (SkipOptionalPointer s) v (UnionElements s)
     (Discriminator s) (DefineViaAlias s) (OAPISchema s)"

definition set_UnionElements :: "string list \<Rightarrow> Schema \<Rightarrow> Schema" where
  "set_UnionElements v s = MkSchema (GoType s) (RefType s) (ArrayType s) (EnumValues s)
     (Properties s) (HasAdditionalProperties s) (AdditionalPropertiesType s)
     (AdditionalTypes s) (EmbeddedTypes s) (SkipOptionalPointer s) (Description s) v
     (Discriminator s) (DefineViaAlias s) (OAPISchema s)"

definition set_Discriminator :: "Discriminator option \<Rightarrow> Schema \<Rightarrow> Schema" where
  "set_Discriminator v s = MkSchema (GoType s) (RefType s) (ArrayType s) (EnumValues s)
     (Properties s) (HasAdditionalProperties s) (AdditionalPropertiesType s)
     (AdditionalTypes s) (EmbeddedTypes s) (SkipOptionalPointer s) (Description s)
     (UnionElements s) v (DefineViaAlias s) (OAPISchema s)"

definition set_DefineViaAlias :: "bool \<Rightarrow> Schema \<Rightarrow> Schema" where
  "set_DefineViaAlias v s = MkSchema (GoType s) (RefType s) (ArrayType s) (EnumValues s)
     (Properties s) (HasAdditionalProperties s) (AdditionalPropertiesType s)
     (AdditionalTypes s) (EmbeddedTypes s) (SkipOptionalPointer s) (Description s)
     (UnionElements s) (Discriminator s) v (OAPISchema s)"

definition set_OAPISchema :: "OSchema option \<Rightarrow> Schema \<Rightarrow> Schema" where
  "set_OAPISchema v s = MkSchema (GoType s) (RefType s) (ArrayType s) (EnumValues s)
     (Properties s) (HasAdditionalProperties s) (AdditionalPropertiesType s)
     (AdditionalTypes s) (EmbeddedTypes s) (SkipOptionalPointer s) (Description s)
     (UnionElements s) (Discriminator s) (DefineViaAlias s) v"

lemmas schema_setters =
  set_GoType_def set_RefType_def set_ArrayType_def set_EnumValues_def set_Properties_def
  set_HasAdditionalProperties_def set_AdditionalPropertiesType_def set_AdditionalTypes_def
  set_EmbeddedTypes_def set_SkipOptionalPointer_def set_Description_def
  set_UnionElements_def set_Discriminator_def set_DefineViaAlias_def set_OAPISchema_def

definition IsRef :: "Schema \<Rightarrow> bool" where
  "IsRef s = (RefType s \<noteq> [])"

definition TypeDecl :: "Schema \<Rightarrow> string" where
  "TypeDecl s = (if IsRef s then RefType s else GoType s)"



section \<open>Name collision resolution\<close>

text \<open>
  Decimal rendering of a natural number, as \<^verbatim>\<open>fmt.Sprintf("%d", i)\<close> prints it.
\<close>

definition digit_char :: "nat \<Rightarrow> char" where
  "digit_char d =
     (if d = 0 then CHR ''0'' else if d = 1 then CHR ''1'' else if d = 2 then CHR ''2''
      else if d = 3 then CHR ''3'' else if d = 4 then CHR ''4'' else if d = 5 then CHR ''5''
      else if d = 6 then CHR ''6'' else if d = 7 then CHR ''7'' else if d = 8 then CHR ''8''
      else CHR ''9'')"

function string_of_nat :: "nat \<Rightarrow> string" where
  "string_of_nat n =
     (if n < 10 then [digit_char n]
      else string_of_nat (n div 10) @ [digit_char (n mod 10)])"
  by pat_completeness auto
termination
  by (relation "measure (\<lambda>n. n)") auto

declare string_of_nat.simps [simp del]




section \<open>Errors, options and the helper functions\<close>

text \<open>
  An error is its message: \<open>Err\<close> is \<^verbatim>\<open>errors.New\<close> or \<^verbatim>\<open>fmt.Errorf\<close> with no
  wrapped error, \<open>Wrap prefix e\<close> is \<^verbatim>\<open>fmt.Errorf(prefix + ": %w", e)\<close>, and
  \<open>Panic\<close> is a run-time panic (a nil pointer dereference).
\<close>

datatype error = Err string | Wrap string error | Panic string

text \<open>The fields of \<^verbatim>\<open>globalState.options\<close> that the compiler reads.\<close>

record Options =
  OldMergeSchemas :: bool
  OldAliasing :: bool
  OldEnumConflicts :: bool
  AllowUnexportedStructFieldNames :: bool
  DisableFlattenAdditionalProperties :: bool
  DisableRequiredReadOnlyAsPointer :: bool
  PreferSkipOptionalPointer :: bool
  PreferSkipOptionalPointerOnContainerTypes :: bool
  PreferSkipOptionalPointerWithOmitzero :: bool
  NullableType :: bool
  EnableYamlTags :: bool
  DisableTypeAliasesForType :: "string list"

text \<open>
  The functions of the package that are defined outside the sources at hand
  (\<^verbatim>\<open>utils.go\<close>, \<^verbatim>\<open>merge_schemas_v1.go\<close>). The compiler is modelled for any
  implementation of them.
\<close>

record Helpers =
  RefPathToGoType :: "string \<Rightarrow> error + string"
  IsGoTypeReference :: "string \<Rightarrow> bool"
  RefPathToObjName :: "string \<Rightarrow> string"
  PathToTypeName :: "string list \<Rightarrow> string"
  SchemaNameToTypeName :: "string \<Rightarrow> string"
  SchemaHasAdditionalProperties :: "OSchema \<Rightarrow> bool"
  SortedSchemaKeys :: "(string \<times> SchemaRef) list \<Rightarrow> string list"
  SortedMapKeys :: "(string \<times> string) list \<Rightarrow> string list"
  StringInArray :: "string \<Rightarrow> string list \<Rightarrow> bool"
  sliceContains :: "string list \<Rightarrow> string \<Rightarrow> bool"
  SanitizeEnumNames :: "string list \<Rightarrow> string list \<Rightarrow> (string \<times> string) list"
  StringWithTypeNameToGoComment :: "string \<Rightarrow> string \<Rightarrow> string"
  DeprecationComment :: "string \<Rightarrow> string"
  mergeSchemasV1 :: "SchemaRef list \<Rightarrow> string list \<Rightarrow> error + Schema"

text \<open>
  The result of a compilation: \<open>None\<close> when the recursion budget is used up, otherwise
  an error or the descriptor together with the schema node as the call leaves it
  (\<^verbatim>\<open>oapiSchemaToGoType\<close> may set its \<^verbatim>\<open>Nullable\<close> flag, which the caller reads
  afterwards).
\<close>

type_synonym compiled = "(error + Schema \<times> OSchema option) option"

type_synonym gen = "SchemaRef option \<Rightarrow> string list \<Rightarrow> compiled"

subsection \<open>Strings\<close>

definition dq :: char where
  "dq = CHR 0x22"

definition nl :: char where
  "nl = CHR 0x0A"

fun HasPrefix :: "string \<Rightarrow> string \<Rightarrow> bool" where
  "HasPrefix s [] = True"
| "HasPrefix [] (p # ps) = False"
| "HasPrefix (c # cs) (p # ps) = (c = p \<and> HasPrefix cs ps)"

fun Contains :: "string \<Rightarrow> string \<Rightarrow> bool" where
  "Contains [] sub = (sub = [])"
| "Contains (c # cs) sub = (HasPrefix (c # cs) sub \<or> Contains cs sub)"

definition TrimPrefix :: "string \<Rightarrow> string \<Rightarrow> string" where
  "TrimPrefix s prfx = (if HasPrefix s prfx then drop (length prfx) s else s)"

fun Join :: "string list \<Rightarrow> string \<Rightarrow> string" where
  "Join [] sep = []"
| "Join [x] sep = x"
| "Join (x # y # ys) sep = x @ sep @ Join (y # ys) sep"

text \<open>\<^verbatim>\<open>fmt.Sprintf("%v", ...)\<close> of an enum literal and of a list of strings.\<close>

definition string_of_int :: "int \<Rightarrow> string" where
  "string_of_int i = (if i < 0 then CHR ''-'' # string_of_nat (nat (- i)) else string_of_nat (nat i))"

fun fmt_v :: "literal \<Rightarrow> string" where
  "fmt_v (LitString x) = x"
| "fmt_v (LitInt i) = string_of_int i"
| "fmt_v (LitBool b) = (if b then ''true'' else ''false'')"
| "fmt_v LitNil = ''<nil>''"

definition fmt_strings :: "string list \<Rightarrow> string" where
  "fmt_strings xs = ''['' @ Join xs '' '' @ '']''"

subsection \<open>Extensions\<close>

definition extPropGoType :: string where
  "extPropGoType = ''x-go-type''"

definition extPropGoTypeSkipOptionalPointer :: string where
  "extPropGoTypeSkipOptionalPointer = ''x-go-type-skip-optional-pointer''"

definition extGoName :: string where
  "extGoName = ''x-go-name''"

definition extGoTypeName :: string where
  "extGoTypeName = ''x-go-type-name''"

definition extPropGoJsonIgnore :: string where
  "extPropGoJsonIgnore = ''x-go-json-ignore''"

definition extPropOmitEmpty :: string where
  "extPropOmitEmpty = ''x-omitempty''"

definition extPropOmitZero :: string where
  "extPropOmitZero = ''x-omitzero''"

definition extPropExtraTags :: string where
  "extPropExtraTags = ''x-oapi-codegen-extra-tags''"

definition extEnumVarNames :: string where
  "extEnumVarNames = ''x-enum-varnames''"

definition extEnumNames :: string where
  "extEnumNames = ''x-enumNames''"

definition extDeprecationReason :: string where
  "extDeprecationReason = ''x-deprecated-reason''"

definition extOapiCodegenOnlyHonourGoName :: string where
  "extOapiCodegenOnlyHonourGoName = ''x-oapi-codegen-only-honour-go-name''"

lemmas ext_names =
  extPropGoType_def extPropGoTypeSkipOptionalPointer_def extGoName_def extGoTypeName_def
  extPropGoJsonIgnore_def extPropOmitEmpty_def extPropOmitZero_def extPropExtraTags_def
  extEnumVarNames_def extEnumNames_def extDeprecationReason_def
  extOapiCodegenOnlyHonourGoName_def

definition quoted :: "string \<Rightarrow> string" where
  "quoted x = dq # x @ [dq]"

fun extString :: "ext_value \<Rightarrow> error + string" where
  "extString (ExtString x) = Inr x"
| "extString _ = Inl (Err ''unsupported type conversion'')"

definition extTypeName :: "ext_value \<Rightarrow> error + string" where
  "extTypeName v = extString v"

fun extBool :: "ext_value \<Rightarrow> error + bool" where
  "extBool (ExtBool b) = Inr b"
| "extBool _ = Inl (Err ''unsupported type conversion'')"

definition extParsePropGoTypeSkipOptionalPointer :: "ext_value \<Rightarrow> error + bool" where
  "extParsePropGoTypeSkipOptionalPointer v = extBool v"

fun extParseEnumVarNames :: "ext_value \<Rightarrow> error + string list" where
  "extParseEnumVarNames (ExtStrings xs) = Inr xs"
| "extParseEnumVarNames _ = Inl (Err ''unsupported type conversion'')"

fun extExtraTags :: "ext_value \<Rightarrow> error + (string \<times> string) list" where
  "extExtraTags (ExtMap m) = Inr m"
| "extExtraTags _ = Inl (Err ''unsupported type conversion'')"


section \<open>Rendering of struct types\<close>

definition GoFieldName :: "Helpers \<Rightarrow> Options \<Rightarrow> Property \<Rightarrow> string" where
  "GoFieldName h opts p =
     (let goFieldName =
            (case map_of (pExtensions p) extGoName of
               None \<Rightarrow> JsonFieldName p
             | Some extension \<Rightarrow>
                 (case extString extension of Inr n \<Rightarrow> n | Inl e \<Rightarrow> JsonFieldName p));
          honour =
            (AllowUnexportedStructFieldNames opts \<and>
             (case map_of (pExtensions p) extOapiCodegenOnlyHonourGoName of
                None \<Rightarrow> False
              | Some extension \<Rightarrow> (case extBool extension of Inr b \<Rightarrow> b | Inl e \<Rightarrow> False)))
      in if honour then goFieldName else SchemaNameToTypeName h goFieldName)"

definition GoTypeDef :: "Options \<Rightarrow> Property \<Rightarrow> string" where
  "GoTypeDef opts p =
     (let typeDef = TypeDecl (pSchema p)
      in if NullableType opts \<and> Nullable p then ''nullable.Nullable['' @ typeDef @ '']''
         else if \<not> SkipOptionalPointer (pSchema p) \<and>
                 (\<not> Required p \<or> Nullable p \<or>
                  (ReadOnly p \<and> (\<not> Required p \<or> \<not> DisableRequiredReadOnlyAsPointer opts)) \<or>
                  WriteOnly p)
              then ''*'' @ typeDef
              else typeDef)"

definition HasOptionalPointer :: "Property \<Rightarrow> bool" where
  "HasOptionalPointer p = (Required p = False \<and> SkipOptionalPointer (pSchema p) = False)"

definition IsAlias :: "Options \<Rightarrow> TypeDefinition \<Rightarrow> bool" where
  "IsAlias opts t = (\<not> OldAliasing opts \<and> DefineViaAlias (tdSchema t))"

text \<open>Reading a Go \<^verbatim>\<open>map[string]string\<close>: a missing key reads as the empty string.\<close>

definition mapGet :: "(string \<times> string) list \<Rightarrow> string \<Rightarrow> string" where
  "mapGet m k = (case map_of m k of None \<Rightarrow> [] | Some v \<Rightarrow> v)"

definition stringOrEmpty :: "bool \<Rightarrow> string \<Rightarrow> string" where
  "stringOrEmpty b x = (if b then x else [])"

definition set_pSchema :: "Schema \<Rightarrow> Property \<Rightarrow> Property" where
  "set_pSchema v p = MkProperty (pDescription p) (JsonFieldName p) v (Required p) (Nullable p)
     (ReadOnly p) (WriteOnly p) (NeedsFormTag p) (pExtensions p) (Deprecated p)"

text \<open>
  The loop of \<^verbatim>\<open>GenFieldsFromProperties\<close> first looks for the extension
  \<^verbatim>\<open>x-go-type-skip-optional-pointer\<close> of the property: a value that parses overwrites
  \<^verbatim>\<open>p.Schema.SkipOptionalPointer\<close>, a value that does not parse is ignored.
\<close>

definition applySkipOptionalPointerExtension :: "Property \<Rightarrow> Property" where
  "applySkipOptionalPointerExtension p0 =
     (case map_of (pExtensions p0) extPropGoTypeSkipOptionalPointer of
        None \<Rightarrow> p0
      | Some extension \<Rightarrow>
          (case extParsePropGoTypeSkipOptionalPointer extension of
             Inr b \<Rightarrow> set_pSchema (set_SkipOptionalPointer b (pSchema p0)) p0
           | Inl e \<Rightarrow> p0))"

text \<open>
  One iteration of the loop of \<^verbatim>\<open>GenFieldsFromProperties\<close>: the text of the field
  of property \<open>p0\<close> at index \<open>i\<close>.
\<close>

definition fieldOfProperty :: "Helpers \<Rightarrow> Options \<Rightarrow> nat \<Rightarrow> Property \<Rightarrow> string" where
  "fieldOfProperty h opts i p0 =
     (let goFieldName = GoFieldName h opts p0;
          comment =
            (if pDescription p0 \<noteq> []
             then (if i \<noteq> 0 then [nl] else []) @
                  StringWithTypeNameToGoComment h (pDescription p0) (GoFieldName h opts p0) @ [nl]
             else []);
          deprecation =
            (if Deprecated p0
             then DeprecationComment h
                    (case map_of (pExtensions p0) extDeprecationReason of
                       None \<Rightarrow> []
                     | Some extension \<Rightarrow>
                         (case extString extension of Inr r \<Rightarrow> r | Inl e \<Rightarrow> [])) @ [nl]
             else []);
          p = applySkipOptionalPointerExtension p0;
          decl = ''    '' @ goFieldName @ '' '' @ GoTypeDef opts p;
          shouldOmitEmpty =
            ((\<not> Required p \<or> ReadOnly p \<or> WriteOnly p) \<and>
             (\<not> Required p \<or> \<not> ReadOnly p \<or> \<not> DisableRequiredReadOnlyAsPointer opts));
          omitEmpty0 =
            (if Nullable p \<and> NullableType opts then shouldOmitEmpty
             else \<not> Nullable p \<and> shouldOmitEmpty);
          omitZero0 =
            (shouldOmitEmpty \<and> SkipOptionalPointer (pSchema p) \<and>
             PreferSkipOptionalPointerWithOmitzero opts);
          omitEmpty =
            (case map_of (pExtensions p) extPropOmitEmpty of
               None \<Rightarrow> omitEmpty0
             | Some v \<Rightarrow> (case extBool v of Inr b \<Rightarrow> b | Inl e \<Rightarrow> omitEmpty0));
          omitZero =
            (case map_of (pExtensions p) extPropOmitZero of
               None \<Rightarrow> omitZero0
             | Some v \<Rightarrow> (case extBool v of Inr b \<Rightarrow> b | Inl e \<Rightarrow> omitZero0));
          tags1 = [(''json'', JsonFieldName p @ stringOrEmpty omitEmpty '',omitempty'' @
                      stringOrEmpty omitZero '',omitzero'')];
          tags2 = (if EnableYamlTags opts
                   then AList.update ''yaml''
                          (JsonFieldName p @ stringOrEmpty omitEmpty '',omitempty'') tags1
                   else tags1);
          tags3 = (if NeedsFormTag p
                   then AList.update ''form''
                          (JsonFieldName p @ stringOrEmpty omitEmpty '',omitempty'') tags2
                   else tags2);
          tags4 = (case map_of (pExtensions p) extPropGoJsonIgnore of
                     None \<Rightarrow> tags3
                   | Some extension \<Rightarrow>
                       (case extBool extension of
                          Inr b \<Rightarrow> (if b then AList.update ''json'' ''-'' tags3 else tags3)
                        | Inl e \<Rightarrow> tags3));
          fieldTags = (case map_of (pExtensions p) extPropExtraTags of
                         None \<Rightarrow> tags4
                       | Some extension \<Rightarrow>
                           (case extExtraTags extension of
                              Inr tags \<Rightarrow>
                                fold (\<lambda>k m. AList.update k (mapGet tags k) m)
                                  (SortedMapKeys h tags) tags4
                            | Inl e \<Rightarrow> tags4));
          rendered = map (\<lambda>k. k @ '':'' @ quoted (mapGet fieldTags k))
                       (SortedMapKeys h fieldTags)
      in comment @ deprecation @ decl @ ''`'' @ Join rendered '' '' @ ''`'')"

definition GenFieldsFromProperties :: "Helpers \<Rightarrow> Options \<Rightarrow> Property list \<Rightarrow> string list" where
  "GenFieldsFromProperties h opts props =
     map (\<lambda>(i, p). fieldOfProperty h opts i p) (List.enumerate 0 props)"

text \<open>
  \<^verbatim>\<open>additionalPropertiesType\<close> dereferences \<^verbatim>\<open>schema.AdditionalPropertiesType\<close>;
  \<open>None\<close> is the panic on a nil pointer.
\<close>

definition additionalPropertiesType :: "Schema \<Rightarrow> string option" where
  "additionalPropertiesType schema =
     (case AdditionalPropertiesType schema of
        None \<Rightarrow> None
      | Some a \<Rightarrow> Some (if RefType a \<noteq> [] then RefType a else GoType a))"

definition GenStructFromSchema :: "Helpers \<Rightarrow> Options \<Rightarrow> Schema \<Rightarrow> string option" where
  "GenStructFromSchema h opts schema =
     (let objectParts =
            [''struct {''] @ map (\<lambda>embeddedType. ''    '' @ embeddedType) (EmbeddedTypes schema) @
            GenFieldsFromProperties h opts (Properties schema);
          closing =
            (if UnionElements schema \<noteq> [] then [''union json.RawMessage''] else []) @ [''}'']
      in if HasAdditionalProperties schema
         then (case additionalPropertiesType schema of
                 None \<Rightarrow> None
               | Some t \<Rightarrow>
                   Some (Join (objectParts @
                     [''AdditionalProperties map[string]'' @ t @ '' `json:'' @ quoted ''-'' @ ''`''] @
                     closing) [nl]))
         else Some (Join (objectParts @ closing) [nl]))"

definition setSkipOptionalPointerForContainerType :: "Options \<Rightarrow> Schema \<Rightarrow> Schema" where
  "setSkipOptionalPointerForContainerType opts outSchema =
     (if \<not> PreferSkipOptionalPointerOnContainerTypes opts then outSchema
      else set_SkipOptionalPointer True outSchema)"



section \<open>Merging the schemas of an allOf\<close>

definition nilDeref :: error where
  "nilDeref = Panic ''invalid memory address or nil pointer dereference''"

text \<open>
  \<^verbatim>\<open>valueWithPropagatedRef\<close>. \<^verbatim>\<open>strings.Split(ref, "#")\<close> has one part more than
  \<open>ref\<close> has \<open>#\<close> characters. For a remote reference the source copies the schema and
  rewrites the \<^verbatim>\<open>Ref\<close> of the values of \<^verbatim>\<open>PropertiesToMap()\<close>; that map and its
  values are built afresh by each call, so the copy that is returned is the schema as it
  was.
\<close>

definition valueWithPropagatedRef :: "SchemaRef \<Rightarrow> error + OSchema option" where
  "valueWithPropagatedRef ref =
     (if (case Ref ref of [] \<Rightarrow> True | c # cs \<Rightarrow> c = CHR ''#'') then Inr (Value ref)
      else if 2 < length (filter (\<lambda>c. c = CHR ''#'') (Ref ref)) + 1
           then Inl (Err (''unsupported reference: '' @ Ref ref))
           else (case Value ref of
                   None \<Rightarrow> Inl nilDeref
                 | Some schema \<Rightarrow> Inr (Some schema)))"

text \<open>
  The body of the inner scan of \<^verbatim>\<open>mergeOpenapiSchemas\<close> for a property name found in
  both schemas: whether the new value replaces the existing one.
\<close>

definition shouldReplaceExisting :: "SchemaRef \<Rightarrow> SchemaRef \<Rightarrow> bool" where
  "shouldReplaceExisting existingVal newVal =
     (let existingEnumCount =
            (case Value existingVal of None \<Rightarrow> 0 | Some e \<Rightarrow> length (oEnum e));
          newEnumCount = (case Value newVal of None \<Rightarrow> 0 | Some n \<Rightarrow> length (oEnum n));
          preferEnum = (0 < newEnumCount \<and> existingEnumCount = 0);
          preferArray =
            (case (Value existingVal, Value newVal) of
               (Some existingSchema, Some newSchema) \<Rightarrow>
                 (let existingIsObject =
                        (case oType existingSchema of [] \<Rightarrow> False | t # ts \<Rightarrow> t = ''object'');
                      newIsArray =
                        ((case oType newSchema of [] \<Rightarrow> False | t # ts \<Rightarrow> t = ''array'') \<and>
                         oItems newSchema \<noteq> None)
                  in existingIsObject \<and> newIsArray)
             | _ \<Rightarrow> False)
      in preferEnum \<or> preferArray)"

text \<open>
  The loop over the properties of \<open>s2\<close>. \<^verbatim>\<open>result.Properties.Set\<close> on the ordered map
  is \<^const>\<open>AList.update\<close>: an existing key keeps its place, a new key goes to the end.
\<close>

fun mergeProperties ::
  "(string \<times> SchemaRef) list \<Rightarrow> (string \<times> SchemaRef) list \<Rightarrow> (string \<times> SchemaRef) list" where
  "mergeProperties result [] = result"
| "mergeProperties result ((propertyName, newVal) # rest) =
     (let hasProperty = (find (\<lambda>e. fst e = propertyName) result \<noteq> None);
          replace =
            (case find (\<lambda>e. fst e = propertyName) result of
               None \<Rightarrow> False
             | Some existingPair \<Rightarrow> shouldReplaceExisting (snd existingPair) newVal)
      in mergeProperties
           (if \<not> hasProperty \<or> replace then AList.update propertyName newVal result else result)
           rest)"

text \<open>
  \<^verbatim>\<open>mergeOpenapiSchemas\<close>. The union of the type sets is computed by the source and
  then dropped, so the result keeps the types of \<open>s1\<close>. The required names are
  collected in a Go map and read back in its iteration order; the model lists them in
  the order of first occurrence. No path of the function returns an error.
\<close>

definition mergeOpenapiSchemas :: "OSchema \<Rightarrow> OSchema \<Rightarrow> bool \<Rightarrow> error + OSchema" where
  "mergeOpenapiSchemas s1 s2 allOf =
     (let s1Props = PropertiesToMap s1;
          s2Props = PropertiesToMap s2;
          result1 =
            (if s1Props \<noteq> None \<or> s2Props \<noteq> None
             then (if s2Props \<noteq> None
                   then (if s1Props = None then set_oProperties (oProperties s2) s1
                         else (case (oProperties s1, oProperties s2) of
                                 (Some ps1, Some ps2) \<Rightarrow>
                                   set_oProperties (Some (mergeProperties ps1 ps2)) s1
                               | (None, Some ps2) \<Rightarrow> set_oProperties (Some ps2) s1
                               | _ \<Rightarrow> s1))
                   else s1)
             else s1);
          combinedRequired =
            remdups ((case oRequired s1 of None \<Rightarrow> [] | Some r \<Rightarrow> r) @
                     (case oRequired s2 of None \<Rightarrow> [] | Some r \<Rightarrow> r));
          result2 =
            (if oRequired s1 \<noteq> None \<or> oRequired s2 \<noteq> None
             then set_oRequired (if combinedRequired = [] then None else Some combinedRequired)
                    result1
             else result1)
      in Inr result2)"

text \<open>The loop of \<^verbatim>\<open>mergeSchemas\<close> over the elements after the first.\<close>

fun mergeRest :: "OSchema option \<Rightarrow> SchemaRef list \<Rightarrow> error + OSchema option" where
  "mergeRest schema [] = Inr schema"
| "mergeRest schema (ref # rest) =
     (case valueWithPropagatedRef ref of
        Inl e \<Rightarrow> Inl e
      | Inr oneOfSchema \<Rightarrow>
          (case (schema, oneOfSchema) of
             (Some s1, Some s2) \<Rightarrow>
               (case mergeOpenapiSchemas s1 s2 True of
                  Inl e \<Rightarrow> Inl (Wrap ''error merging schemas for AllOf'' e)
                | Inr mergedSchema \<Rightarrow> mergeRest (Some mergedSchema) rest)
           | _ \<Rightarrow> Inl nilDeref))"

definition mergeSchemas :: "gen \<Rightarrow> SchemaRef list \<Rightarrow> string list \<Rightarrow> compiled" where
  "mergeSchemas gen allOf path =
     (case allOf of
        [] \<Rightarrow> Some (Inl (Err ''no schemas to merge in allOf''))
      | [only] \<Rightarrow> gen (Some only) path
      | first # rest \<Rightarrow>
          (case valueWithPropagatedRef first of
             Inl e \<Rightarrow> Some (Inl e)
           | Inr schema \<Rightarrow>
               (case mergeRest schema rest of
                  Inl e \<Rightarrow> Some (Inl e)
                | Inr merged \<Rightarrow> gen (Some (NewSchemaRef [] merged)) path)))"

definition MergeSchemas ::
  "gen \<Rightarrow> Helpers \<Rightarrow> Options \<Rightarrow> SchemaRef list \<Rightarrow> string list \<Rightarrow> (error + Schema) option" where
  "MergeSchemas gen h opts allOf path =
     (if OldMergeSchemas opts then Some (mergeSchemasV1 h allOf path)
      else (case mergeSchemas gen allOf path of
              None \<Rightarrow> None
            | Some (Inl e) \<Rightarrow> Some (Inl e)
            | Some (Inr (schema, node)) \<Rightarrow> Some (Inr schema)))"


section \<open>The schema-to-type compiler\<close>

text \<open>
  The functions of \<^verbatim>\<open>schema.go\<close> call each other recursively. Each one is modelled with
  the recursive call to \<^verbatim>\<open>GenerateGoSchema\<close> as its parameter \<open>gen\<close>; the recursion is
  closed at the end of the section.
\<close>

definition sq :: "string \<Rightarrow> string" where
  "sq x = CHR 0x27 # x @ [CHR 0x27]"

text \<open>
  \<^verbatim>\<open>oapiSchemaToGoType\<close> writes the descriptor \<^verbatim>\<open>outSchema\<close> and, for a type set of
  one type and \<^verbatim>\<open>null\<close>, the \<^verbatim>\<open>Nullable\<close> flag of the schema. Both are returned.
  The function is modelled in two parts: \<open>primitiveGoType\<close> is the chain of cases on the
  type that follows the handling of type unions; \<open>t\<close> is the local variable of that name,
  which only the last error message reads.
\<close>

definition primitiveGoType ::
  "gen \<Rightarrow> Helpers \<Rightarrow> Options \<Rightarrow> OSchema \<Rightarrow> string list \<Rightarrow> string list \<Rightarrow> Schema \<Rightarrow>
     (error + Schema) option" where
  "primitiveGoType gen h opts schema t path outSchema =
     (let f = oFormat schema
      in if TypeIs schema ''array''
         then (case gen (oItems schema) (path @ [''Item'']) of
                 None \<Rightarrow> None
               | Some (Inl e) \<Rightarrow> Some (Inl (Wrap ''error generating type for array'' e))
               | Some (Inr (arrayType0, node)) \<Rightarrow>
                   (let arrayType =
                          (if (HasAdditionalProperties arrayType0 \<or> UnionElements arrayType0 \<noteq> []) \<and>
                              RefType arrayType0 = []
                           then (let typeName = PathToTypeName h (path @ [''Item'']);
                                     typeDef = MkTypeDefinition typeName
                                                 (Join (path @ [''Item'']) ''.'') arrayType0
                                 in set_RefType typeName
                                      (set_AdditionalTypes (AdditionalTypes arrayType0 @ [typeDef])
                                         arrayType0))
                           else arrayType0);
                        out1 = set_ArrayType (Some arrayType) outSchema;
                        out2 = set_GoType (''[]'' @ TypeDecl arrayType) out1;
                        out3 = set_AdditionalTypes (AdditionalTypes arrayType) out2;
                        out4 = set_Properties (Properties arrayType) out3;
                        out5 = set_DefineViaAlias
                                 (\<not> sliceContains h (DisableTypeAliasesForType opts) ''array'') out4
                    in Some (Inr (setSkipOptionalPointerForContainerType opts out5))))
         else if TypeIs schema ''integer''
         then Some (Inr (set_DefineViaAlias True
                 (set_GoType
                    (if f \<in> set [''int64'', ''int32'', ''int16'', ''int8'', ''int'', ''uint64'',
                                  ''uint32'', ''uint16'', ''uint8'', ''uint'']
                     then f else ''int'') outSchema)))
         else if TypeIs schema ''number''
         then (if f = ''double''
               then Some (Inr (set_DefineViaAlias True (set_GoType ''float64'' outSchema)))
               else if f = ''float'' \<or> f = []
               then Some (Inr (set_DefineViaAlias True (set_GoType ''float32'' outSchema)))
               else Some (Inl (Err (''invalid number format: '' @ f))))
         else if TypeIs schema ''boolean''
         then (if f \<noteq> [] then Some (Inl (Err (''invalid format ('' @ f @ '') for boolean'')))
               else Some (Inr (set_DefineViaAlias True (set_GoType ''bool'' outSchema))))
         else if TypeIs schema ''string''
         then Some (Inr (set_DefineViaAlias True
                 (if f = ''byte''
                  then setSkipOptionalPointerForContainerType opts (set_GoType ''[]byte'' outSchema)
                  else if f = ''email'' then set_GoType ''openapi_types.Email'' outSchema
                  else if f = ''date'' then set_GoType ''openapi_types.Date'' outSchema
                  else if f = ''date-time'' then set_GoType ''time.Time'' outSchema
                  else if f = ''json''
                  then set_SkipOptionalPointer True (set_GoType ''json.RawMessage'' outSchema)
                  else if f = ''uuid'' then set_GoType ''openapi_types.UUID'' outSchema
                  else if f = ''binary'' then set_GoType ''openapi_types.File'' outSchema
                  else set_GoType ''string'' outSchema)))
         else Some (Inl (Err (''unhandled Schema type: '' @ fmt_strings t))))"

definition oapiSchemaToGoType ::
  "gen \<Rightarrow> Helpers \<Rightarrow> Options \<Rightarrow> OSchema \<Rightarrow> string list \<Rightarrow> Schema \<Rightarrow>
     (error + Schema \<times> OSchema) option" where
  "oapiSchemaToGoType gen h opts schema0 path outSchema =
     (let typeSlice = TypeSlice schema0;
          hasNull = (''null'' \<in> set typeSlice);
          nonNullTypes = filter (\<lambda>t. t \<noteq> ''null'') typeSlice;
          schema = (if 1 \<le> length typeSlice \<and> hasNull \<and> length nonNullTypes = 1
                    then set_oNullable True schema0 else schema0);
          t = (if 1 \<le> length typeSlice then take 1 nonNullTypes else oType schema0)
      in if 1 \<le> length typeSlice \<and> hasNull \<and> length nonNullTypes = 0
         then Some (Inr (set_DefineViaAlias True (set_GoType ''interface{}'' outSchema), schema0))
         else if 1 \<le> length typeSlice \<and> length nonNullTypes \<noteq> 1
         then (if length nonNullTypes = 2 \<and> ''string'' \<in> set nonNullTypes \<and>
                  (''number'' \<in> set nonNullTypes \<or> ''integer'' \<in> set nonNullTypes)
               then Some (Inr (set_DefineViaAlias True (set_GoType ''float32'' outSchema), schema0))
               else Some (Inr (set_DefineViaAlias True (set_GoType ''interface{}'' outSchema),
                               schema0)))
         else (case primitiveGoType gen h opts schema t path outSchema of
                 None \<Rightarrow> None
               | Some (Inl e) \<Rightarrow> Some (Inl e)
               | Some (Inr out) \<Rightarrow> Some (Inr (out, schema))))"

text \<open>
  \<^verbatim>\<open>generateUnion\<close>. The body of its loop is modelled in parts: the naming of an
  inline element, the key of an element in the discriminator mapping, and the append
  of the element to the union without duplicates. \<open>used\<close> is the key set of
  \<^verbatim>\<open>usedTypeNames\<close>. The source looks for the explicit mapping entry of an element by
  ranging over a Go map; the model takes the first entry of the mapping in its order.
  \<^verbatim>\<open>refToGoTypeMap\<close> is written and never read.
\<close>

definition ambiguousMapping :: error where
  "ambiguousMapping =
     Err ''ambiguous discriminator.mapping: please replace inlined object with $ref''"

definition notAllMapped :: error where
  "notAllMapped = Err ''discriminator: not all schemas were mapped''"

definition unionSuffix :: "Schema \<Rightarrow> nat \<Rightarrow> string" where
  "unionSuffix elementSchema i =
     (if ArrayType elementSchema \<noteq> None then ''Array''
      else if 0 < length (EnumValues elementSchema) then ''Enum''
      else if GoType elementSchema = ''string'' then ''String''
      else if GoType elementSchema = ''int'' \<or> GoType elementSchema = ''int32'' \<or>
              GoType elementSchema = ''int64'' then ''Int''
      else if GoType elementSchema = ''bool'' then ''Bool''
      else ''Variant'' @ string_of_nat i)"

text \<open>
  The block for an element with no reference: the element schema with its new name, the
  used names and the output schema with the type definition of the element.
\<close>

definition inlineUnionElement ::
  "Helpers \<Rightarrow> string list \<Rightarrow> nat \<Rightarrow> Schema \<Rightarrow> string list \<Rightarrow> Schema \<Rightarrow>
     Schema \<times> string list \<times> Schema" where
  "inlineUnionElement h elementPath i elementSchema used outSchema =
     (let elementName0 = SchemaNameToTypeName h (PathToTypeName h elementPath);
          elementName =
            (if elementName0 \<in> set used then elementName0 @ unionSuffix elementSchema i
             else elementName0)
      in (set_GoType elementName elementSchema,
          elementName # used,
          set_AdditionalTypes
            (AdditionalTypes outSchema @
             (if TypeDecl elementSchema = elementName then []
              else [MkTypeDefinition elementName [] elementSchema]) @
             AdditionalTypes elementSchema)
            outSchema))"

text \<open>The discriminator value of an element: its explicit mapping key, or the implicit one.\<close>

definition discriminatorKey :: "Helpers \<Rightarrow> ODiscriminator \<Rightarrow> SchemaRef \<Rightarrow> string" where
  "discriminatorKey h d element =
     (case find (\<lambda>kv. snd kv = Ref element) (MappingToMap d) of
        Some kv \<Rightarrow> fst kv
      | None \<Rightarrow> RefPathToObjName h (Ref element))"

definition mapVariant :: "string \<Rightarrow> string \<Rightarrow> Discriminator \<Rightarrow> Schema \<Rightarrow> Schema" where
  "mapVariant key goType od outSchema =
     set_Discriminator (Some (MkDiscriminator (AList.update key goType (Mapping od)) (Property od)))
       outSchema"

definition addUnionElement :: "Schema \<Rightarrow> Schema \<Rightarrow> Schema" where
  "addUnionElement elementSchema outSchema =
     (if GoType elementSchema \<in> set (UnionElements outSchema) then outSchema
      else set_UnionElements (UnionElements outSchema @ [GoType elementSchema]) outSchema)"

fun generateUnionLoop ::
  "gen \<Rightarrow> Helpers \<Rightarrow> ODiscriminator option \<Rightarrow> string list \<Rightarrow> nat \<Rightarrow> SchemaRef list \<Rightarrow>
     string list \<Rightarrow> Schema \<Rightarrow> (error + Schema) option" where
  "generateUnionLoop gen h discriminator path i [] used outSchema = Some (Inr outSchema)"
| "generateUnionLoop gen h discriminator path i (element # rest) used outSchema =
     (case gen (Some element) (path @ [string_of_nat i]) of
        None \<Rightarrow> None
      | Some (Inl e) \<Rightarrow> Some (Inl e)
      | Some (Inr (elementSchema0, node)) \<Rightarrow>
          (case (if Ref element = []
                 then inlineUnionElement h (path @ [string_of_nat i]) i elementSchema0 used
                        outSchema
                 else (elementSchema0, used, outSchema)) of
             (elementSchema, used1, out1) \<Rightarrow>
               (case discriminator of
                  None \<Rightarrow>
                    generateUnionLoop gen h discriminator path (Suc i) rest used1
                      (addUnionElement elementSchema out1)
                | Some d \<Rightarrow>
                    if length (MappingToMap d) \<noteq> 0 \<and> Ref element = []
                    then Some (Inl ambiguousMapping)
                    else (case Discriminator out1 of
                            None \<Rightarrow> Some (Inl nilDeref)
                          | Some od \<Rightarrow>
                              generateUnionLoop gen h discriminator path (Suc i) rest used1
                                (addUnionElement elementSchema
                                   (mapVariant (discriminatorKey h d element)
                                      (GoType elementSchema) od out1))))))"

definition generateUnion ::
  "gen \<Rightarrow> Helpers \<Rightarrow> Schema \<Rightarrow> SchemaRef list \<Rightarrow> ODiscriminator option \<Rightarrow> string list \<Rightarrow>
     (error + Schema) option" where
  "generateUnion gen h outSchema elements discriminator path =
     (let out0 = (case discriminator of
                    None \<Rightarrow> outSchema
                  | Some d \<Rightarrow>
                      set_Discriminator (Some (MkDiscriminator [] (PropertyName d))) outSchema)
      in case generateUnionLoop gen h discriminator path 0 elements [] out0 of
           None \<Rightarrow> None
         | Some (Inl e) \<Rightarrow> Some (Inl e)
         | Some (Inr out) \<Rightarrow>
             (case Discriminator out of
                None \<Rightarrow> Some (Inr out)
              | Some od \<Rightarrow>
                  if length (Mapping od) \<noteq> length elements
                  then Some (Inl notAllMapped)
                  else Some (Inr out)))"

subsection \<open>The branches of \<^verbatim>\<open>GenerateGoSchema\<close>\<close>

text \<open>The schema of a reference whose value could not be resolved.\<close>

definition unresolvedSchema :: "Helpers \<Rightarrow> SchemaRef \<Rightarrow> Schema" where
  "unresolvedSchema h sref =
     (if Ref sref \<noteq> []
      then (case RefPathToGoType h (Ref sref) of
              Inl e \<Rightarrow> set_RefType ''interface{}'' (set_GoType ''interface{}'' zeroSchema)
            | Inr refType \<Rightarrow> set_RefType refType (set_GoType refType zeroSchema))
      else set_RefType ''interface{}'' (set_GoType ''interface{}'' zeroSchema))"

text \<open>The schema of a reference to another type.\<close>

definition referenceSchema ::
  "Helpers \<Rightarrow> SchemaRef \<Rightarrow> OSchema \<Rightarrow> string list \<Rightarrow> bool \<Rightarrow> compiled" where
  "referenceSchema h sref schema path skipOptionalPointer =
     (case RefPathToGoType h (Ref sref) of
        Inl e \<Rightarrow>
          Some (Inl (Wrap (''error turning reference ('' @ Ref sref @ '') into a Go type'') e))
      | Inr refType \<Rightarrow>
          (let isComponentRef = Contains (Ref sref) ''#/components/schemas/'';
               refName = TrimPrefix (Ref sref) ''#/components/schemas/'';
               isDefiningComponentSchema =
                 (isComponentRef \<and> 0 < length path \<and> length path = 1 \<and> path ! 0 = refName)
           in Some (Inr (MkSchema refType refType None [] [] False None [] [] skipOptionalPointer
                           (oDescription schema) [] None (\<not> isDefiningComponentSchema)
                           (Some schema),
                         Some schema))))"

text \<open>
  The first loop of the allOf branch: whether every element is a reference or a flat
  inline schema, and the number of references counted until the loop ends or breaks.
\<close>

definition isComposed :: "SchemaRef \<Rightarrow> bool" where
  "isComposed schemaRef =
     (case Value schemaRef of
        None \<Rightarrow> False
      | Some v \<Rightarrow>
          (case oAllOf v of None \<Rightarrow> False | Some l \<Rightarrow> 0 < length l) \<or>
          (case oOneOf v of None \<Rightarrow> False | Some l \<Rightarrow> 0 < length l) \<or>
          (case oAnyOf v of None \<Rightarrow> False | Some l \<Rightarrow> 0 < length l))"

fun allOfScan :: "SchemaRef list \<Rightarrow> nat \<Rightarrow> bool \<times> nat" where
  "allOfScan [] refCount = (True, refCount)"
| "allOfScan (schemaRef # rest) refCount =
     (if Ref schemaRef \<noteq> [] then allOfScan rest (Suc refCount)
      else if isComposed schemaRef then (False, refCount)
      else allOfScan rest refCount)"

text \<open>The second loop: embed each reference, append the properties of each inline schema.\<close>

fun embedAllOf ::
  "gen \<Rightarrow> Helpers \<Rightarrow> string list \<Rightarrow> SchemaRef list \<Rightarrow> Schema \<Rightarrow> (error + Schema) option" where
  "embedAllOf gen h path [] resultSchema = Some (Inr resultSchema)"
| "embedAllOf gen h path (schemaRef # rest) resultSchema =
     (if Ref schemaRef \<noteq> []
      then (case RefPathToGoType h (Ref schemaRef) of
              Inl e \<Rightarrow> Some (Inl (Wrap ''error converting ref path to go type'' e))
            | Inr refTypeName \<Rightarrow>
                (case gen (Some schemaRef) path of
                   None \<Rightarrow> None
                 | Some (Inl e) \<Rightarrow>
                     Some (Inl (Wrap ''error generating referenced schema in allOf'' e))
                 | Some (Inr (referencedSchema, node)) \<Rightarrow>
                     embedAllOf gen h path rest
                       (set_AdditionalTypes
                          (AdditionalTypes resultSchema @ AdditionalTypes referencedSchema)
                          (set_EmbeddedTypes (EmbeddedTypes resultSchema @ [refTypeName])
                             resultSchema))))
      else (case gen (Some schemaRef) path of
              None \<Rightarrow> None
            | Some (Inl e) \<Rightarrow> Some (Inl (Wrap ''error generating inline schema in allOf'' e))
            | Some (Inr (inlineSchema, node)) \<Rightarrow>
                embedAllOf gen h path rest
                  (set_AdditionalTypes
                     (AdditionalTypes resultSchema @ AdditionalTypes inlineSchema)
                     (set_Properties (Properties resultSchema @ Properties inlineSchema)
                        resultSchema))))"

definition allOfSchema ::
  "gen \<Rightarrow> Helpers \<Rightarrow> Options \<Rightarrow> OSchema \<Rightarrow> SchemaRef list \<Rightarrow> string list \<Rightarrow> compiled" where
  "allOfSchema gen h opts schema allOfRefs path =
     (let hasOnlyRefsAndSimpleInline = fst (allOfScan allOfRefs 0);
          refCount = snd (allOfScan allOfRefs 0);
          isTopLevelSchema = (length path \<le> 1)
      in if hasOnlyRefsAndSimpleInline \<and> 0 < refCount \<and> isTopLevelSchema
         then (case embedAllOf gen h path allOfRefs
                      (set_OAPISchema (Some schema)
                         (set_Description (oDescription schema)
                            (set_GoType ''struct'' zeroSchema))) of
                 None \<Rightarrow> None
               | Some (Inl e) \<Rightarrow> Some (Inl e)
               | Some (Inr resultSchema) \<Rightarrow>
                   if 0 < length (EmbeddedTypes resultSchema) \<or>
                      0 < length (Properties resultSchema)
                   then (case GenStructFromSchema h opts resultSchema of
                           None \<Rightarrow> Some (Inl nilDeref)
                         | Some goType \<Rightarrow> Some (Inr (set_GoType goType resultSchema, Some schema)))
                   else Some (Inr (resultSchema, Some schema)))
         else (case MergeSchemas gen h opts allOfRefs path of
                 None \<Rightarrow> None
               | Some (Inl e) \<Rightarrow> Some (Inl (Wrap ''error merging schemas'' e))
               | Some (Inr mergedSchema) \<Rightarrow>
                   Some (Inr (set_OAPISchema (Some schema) mergedSchema, Some schema))))"

text \<open>The \<^verbatim>\<open>x-go-type-name\<close> extension at the end of the object branch.\<close>

definition applyGoTypeName :: "OSchema \<Rightarrow> Schema \<Rightarrow> compiled" where
  "applyGoTypeName schema outSchema =
     (case map_of (oExtensions schema) extGoTypeName of
        None \<Rightarrow> Some (Inr (outSchema, Some schema))
      | Some extension \<Rightarrow>
          (case extTypeName extension of
             Inl e \<Rightarrow> Some (Inl (Wrap (''invalid value for '' @ quoted extGoTypeName) e))
           | Inr typeName \<Rightarrow>
               Some (Inr (set_AdditionalTypes
                            (AdditionalTypes outSchema @ [MkTypeDefinition typeName [] outSchema])
                            (set_DefineViaAlias True
                               (set_GoType typeName
                                  (set_Description (Description outSchema) zeroSchema))),
                          Some schema))))"

text \<open>The additional properties of an object with a schema for them.\<close>

definition additionalPropertiesSchema ::
  "gen \<Rightarrow> Helpers \<Rightarrow> OSchema \<Rightarrow> string list \<Rightarrow> Schema \<Rightarrow> (error + Schema) option" where
  "additionalPropertiesSchema gen h schema path outSchema =
     (case oAdditionalPropertiesSchema schema of
        None \<Rightarrow> Some (Inr outSchema)
      | Some ap \<Rightarrow>
          (case gen (Some ap) path of
             None \<Rightarrow> None
           | Some (Inl e) \<Rightarrow>
               Some (Inl (Wrap ''error generating type for additional properties'' e))
           | Some (Inr (additionalSchema0, node)) \<Rightarrow>
               (let additionalSchema =
                      (if HasAdditionalProperties additionalSchema0 \<or>
                          length (UnionElements additionalSchema0) \<noteq> 0
                       then (let typeName = PathToTypeName h (path @ [''AdditionalProperties'']);
                                 typeDef = MkTypeDefinition typeName
                                             (Join (path @ [''AdditionalProperties'']) ''.'')
                                             additionalSchema0
                             in set_AdditionalTypes
                                  (AdditionalTypes additionalSchema0 @ [typeDef])
                                  (set_RefType typeName additionalSchema0))
                       else additionalSchema0)
                in Some (Inr (set_AdditionalTypes
                                (AdditionalTypes outSchema @ AdditionalTypes additionalSchema)
                                (set_AdditionalPropertiesType (Some additionalSchema) outSchema))))))"

text \<open>
  The loop over the sorted property names. The property is looked up in the map of
  properties; a name that is not a key of the map gives a nil property, which the source
  dereferences after compiling it.
\<close>

fun compileProperties ::
  "gen \<Rightarrow> Helpers \<Rightarrow> OSchema \<Rightarrow> string list \<Rightarrow> (string \<times> SchemaRef) list \<Rightarrow> string list \<Rightarrow>
     Schema \<Rightarrow> (error + Schema) option" where
  "compileProperties gen h schema path props [] outSchema = Some (Inr outSchema)"
| "compileProperties gen h schema path props (pName # rest) outSchema =
     (let propertyPath = path @ [pName]
      in case gen (map_of props pName) propertyPath of
           None \<Rightarrow> None
         | Some (Inl e) \<Rightarrow>
             Some (Inl (Wrap (''error generating Go schema for property '' @ sq pName) e))
         | Some (Inr (pSchema0, node)) \<Rightarrow>
             (case node of
                None \<Rightarrow> Some (Inl nilDeref)
              | Some pValue \<Rightarrow>
                  (let required =
                         StringInArray h pName
                           (case oRequired schema of None \<Rightarrow> [] | Some r \<Rightarrow> r);
                       pSchema =
                         (if (HasAdditionalProperties pSchema0 \<or>
                              length (UnionElements pSchema0) \<noteq> 0) \<and> RefType pSchema0 = []
                          then (let typeName = PathToTypeName h propertyPath;
                                    typeDef = MkTypeDefinition typeName (Join propertyPath ''.'')
                                                pSchema0
                                in set_RefType typeName
                                     (set_AdditionalTypes (AdditionalTypes pSchema0 @ [typeDef])
                                        pSchema0))
                          else pSchema0);
                       prop = MkProperty (oDescription pValue) pName pSchema required
                                (oNullable pValue) (IsReadOnly pValue) (IsWriteOnly pValue) False
                                (oExtensions pValue) (IsDeprecated pValue)
                   in compileProperties gen h schema path props rest
                        (set_AdditionalTypes (AdditionalTypes outSchema @ AdditionalTypes pSchema)
                           (set_Properties (Properties outSchema @ [prop]) outSchema)))))"

definition unionOf ::
  "gen \<Rightarrow> Helpers \<Rightarrow> string \<Rightarrow> SchemaRef list option \<Rightarrow> ODiscriminator option \<Rightarrow> string list \<Rightarrow>
     Schema \<Rightarrow> (error + Schema) option" where
  "unionOf gen h what elements discriminator path outSchema =
     (case elements of
        None \<Rightarrow> Some (Inr outSchema)
      | Some es \<Rightarrow>
          (case generateUnion gen h outSchema es discriminator path of
             None \<Rightarrow> None
           | Some (Inl e) \<Rightarrow> Some (Inl (Wrap (''error generating type for '' @ what) e))
           | Some (Inr out) \<Rightarrow> Some (Inr out)))"

text \<open>The branch for objects and for schemas with no type.\<close>

definition objectSchema ::
  "gen \<Rightarrow> Helpers \<Rightarrow> Options \<Rightarrow> OSchema \<Rightarrow> string list \<Rightarrow> Schema \<Rightarrow> compiled" where
  "objectSchema gen h opts schema path outSchema =
     (let props = (case PropertiesToMap schema of None \<Rightarrow> [] | Some ps \<Rightarrow> ps)
      in if length props = 0 \<and> \<not> SchemaHasAdditionalProperties h schema \<and>
            oAnyOf schema = None \<and> oOneOf schema = None
         then applyGoTypeName schema
                (set_DefineViaAlias True
                   (if TypeIs schema ''object''
                    then set_GoType ''map[string]interface{}''
                           (setSkipOptionalPointerForContainerType opts outSchema)
                    else set_GoType ''interface{}'' (set_SkipOptionalPointer True outSchema)))
         else (case additionalPropertiesSchema gen h schema path
                      (set_AdditionalPropertiesType (Some (set_GoType ''interface{}'' zeroSchema))
                         (set_HasAdditionalProperties (SchemaHasAdditionalProperties h schema)
                            (set_DefineViaAlias False outSchema))) of
                 None \<Rightarrow> None
               | Some (Inl e) \<Rightarrow> Some (Inl e)
               | Some (Inr out1) \<Rightarrow>
                   if \<not> DisableFlattenAdditionalProperties opts \<and> length props = 0 \<and>
                      oAnyOf schema = None \<and> oOneOf schema = None
                   then (case additionalPropertiesType out1 of
                           None \<Rightarrow> Some (Inl nilDeref)
                         | Some t \<Rightarrow>
                             Some (Inr (setSkipOptionalPointerForContainerType opts
                                          (set_GoType (''map[string]'' @ t)
                                             (set_HasAdditionalProperties False out1)),
                                        Some schema)))
                   else (case compileProperties gen h schema path props
                                (SortedSchemaKeys h props) out1 of
                           None \<Rightarrow> None
                         | Some (Inl e) \<Rightarrow> Some (Inl e)
                         | Some (Inr out2) \<Rightarrow>
                             (case unionOf gen h ''anyOf'' (oAnyOf schema) (oDiscriminator schema)
                                     path out2 of
                                None \<Rightarrow> None
                              | Some (Inl e) \<Rightarrow> Some (Inl e)
                              | Some (Inr out3) \<Rightarrow>
                                  (case unionOf gen h ''oneOf'' (oOneOf schema)
                                          (oDiscriminator schema) path out3 of
                                     None \<Rightarrow> None
                                   | Some (Inl e) \<Rightarrow> Some (Inl e)
                                   | Some (Inr out4) \<Rightarrow>
                                       (case GenStructFromSchema h opts out4 of
                                          None \<Rightarrow> Some (Inl nilDeref)
                                        | Some goType \<Rightarrow>
                                            applyGoTypeName schema
                                              (set_GoType goType out4)))))))"

text \<open>The branch for a schema with enum values and a type other than object.\<close>

definition Enum :: "OSchema \<Rightarrow> literal list" where
  "Enum s = oEnum s"

definition enumNamesOf :: "OSchema \<Rightarrow> string list \<Rightarrow> string list" where
  "enumNamesOf schema enumValues =
     (let fromKey = (\<lambda>key. case map_of (oExtensions schema) key of
                             None \<Rightarrow> None
                           | Some extension \<Rightarrow>
                               (case extParseEnumVarNames extension of
                                  Inl e \<Rightarrow> None
                                | Inr names \<Rightarrow> Some names))
      in case fromKey extEnumVarNames of
           Some names \<Rightarrow> names
         | None \<Rightarrow> (case fromKey extEnumNames of Some names \<Rightarrow> names | None \<Rightarrow> enumValues))"

definition enumSchema ::
  "gen \<Rightarrow> Helpers \<Rightarrow> Options \<Rightarrow> OSchema \<Rightarrow> string list \<Rightarrow> Schema \<Rightarrow> compiled" where
  "enumSchema gen h opts schema0 path outSchema =
     (case oapiSchemaToGoType gen h opts schema0 path outSchema of
        None \<Rightarrow> None
      | Some (Inl e) \<Rightarrow> Some (Inl (Wrap ''error resolving primitive type'' e))
      | Some (Inr (out0, schema)) \<Rightarrow>
          (let out1 = set_DefineViaAlias False (set_OAPISchema (Some schema) out0);
               enumValues = map fmt_v (Enum schema);
               enumNames = enumNamesOf schema enumValues;
               sanitizedValues = SanitizeEnumNames h enumNames enumValues;
               out2 = set_EnumValues
                        (fold (\<lambda>(k, v) m.
                                 AList.update
                                   (if OldEnumConflicts opts
                                    then SchemaNameToTypeName h
                                           (PathToTypeName h
                                              (path @ [if v = [] then ''Empty'' else k]))
                                    else SchemaNameToTypeName h k)
                                   v m)
                           sanitizedValues [])
                        out1
           in if 1 < length path
              then (case (case map_of (oExtensions schema) extGoTypeName of
                            None \<Rightarrow> Inr (SchemaNameToTypeName h (PathToTypeName h path))
                          | Some extension \<Rightarrow> extString extension) of
                      Inl e \<Rightarrow> Some (Inl (Wrap (''invalid value for '' @ quoted extGoTypeName) e))
                    | Inr typeName \<Rightarrow>
                        Some (Inr (set_RefType typeName
                                     (set_AdditionalTypes
                                        (AdditionalTypes out2 @
                                         [MkTypeDefinition typeName (Join path ''.'') out2])
                                        out2),
                                   Some schema)))
              else Some (Inr (out2, Some schema))))"

definition primitiveSchema ::
  "gen \<Rightarrow> Helpers \<Rightarrow> Options \<Rightarrow> OSchema \<Rightarrow> string list \<Rightarrow> Schema \<Rightarrow> compiled" where
  "primitiveSchema gen h opts schema0 path outSchema =
     (case oapiSchemaToGoType gen h opts schema0 path outSchema of
        None \<Rightarrow> None
      | Some (Inl e) \<Rightarrow> Some (Inl (Wrap ''error resolving primitive type'' e))
      | Some (Inr (out0, schema)) \<Rightarrow> Some (Inr (set_OAPISchema (Some schema) out0, Some schema)))"

subsection \<open>\<^verbatim>\<open>GenerateGoSchema\<close>\<close>

text \<open>
  The value of \<^verbatim>\<open>skipOptionalPointer\<close>: the global default, or the value of the
  extension \<^verbatim>\<open>x-go-type-skip-optional-pointer\<close> of the schema.
\<close>

definition skipOptionalPointerOf :: "Options \<Rightarrow> OSchema \<Rightarrow> error + bool" where
  "skipOptionalPointerOf opts schema =
     (case map_of (oExtensions schema) extPropGoTypeSkipOptionalPointer of
        None \<Rightarrow> Inr (PreferSkipOptionalPointer opts)
      | Some extension \<Rightarrow> extParsePropGoTypeSkipOptionalPointer extension)"

definition GenerateGoSchema_body ::
  "gen \<Rightarrow> Helpers \<Rightarrow> Options \<Rightarrow> SchemaRef option \<Rightarrow> string list \<Rightarrow> compiled" where
  "GenerateGoSchema_body gen h opts sref0 path =
     (case sref0 of
        None \<Rightarrow> Some (Inr (set_GoType ''interface{}'' zeroSchema, None))
      | Some sref \<Rightarrow>
          (case Value sref of
             None \<Rightarrow> Some (Inr (unresolvedSchema h sref, None))
           | Some schema \<Rightarrow>
               (case skipOptionalPointerOf opts schema of
                  Inl e \<Rightarrow>
                    Some (Inl (Wrap (''invalid value for '' @
                                     quoted extPropGoTypeSkipOptionalPointer) e))
                | Inr skipOptionalPointer \<Rightarrow>
                    if IsGoTypeReference h (Ref sref)
                    then referenceSchema h sref schema path skipOptionalPointer
                    else (let outSchema =
                                set_SkipOptionalPointer skipOptionalPointer
                                  (set_OAPISchema (Some schema)
                                     (set_Description (oDescription schema) zeroSchema))
                          in case oAllOf schema of
                               Some allOfRefs \<Rightarrow> allOfSchema gen h opts schema allOfRefs path
                             | None \<Rightarrow>
                                 (case map_of (oExtensions schema) extPropGoType of
                                    Some extension \<Rightarrow>
                                      (case extTypeName extension of
                                         Inl e \<Rightarrow>
                                           Some (Inl (Wrap (''invalid value for '' @
                                                            quoted extPropGoType) e))
                                       | Inr typeName \<Rightarrow>
                                           Some (Inr (set_DefineViaAlias True
                                                        (set_GoType typeName outSchema),
                                                      Some schema)))
                                  | None \<Rightarrow>
                                      if length (TypeSlice schema) = 0 \<or> TypeIs schema ''object''
                                      then objectSchema gen h opts schema path outSchema
                                      else if 0 < length (Enum schema)
                                      then enumSchema gen h opts schema path outSchema
                                      else primitiveSchema gen h opts schema path outSchema)))))"

text \<open>
  The recursion, closed with a budget for the depth of nested calls: with no budget left
  the result is \<open>None\<close>.
\<close>

fun GenerateGoSchema ::
  "nat \<Rightarrow> Helpers \<Rightarrow> Options \<Rightarrow> SchemaRef option \<Rightarrow> string list \<Rightarrow> compiled" where
  "GenerateGoSchema 0 h opts sref path = None"
| "GenerateGoSchema (Suc n) h opts sref path =
     GenerateGoSchema_body (GenerateGoSchema n h opts) h opts sref path"


section \<open>Pruning of unused components\<close>

text \<open>
  \<^verbatim>\<open>prune.go\<close> walks the document and deletes the named components that no reference
  reaches. The document is modelled with the fields the walk reads: a reference wrapper
  is its \<^verbatim>\<open>Ref\<close> string and its optional value, a Go map is an association list, a nil
  pointer is \<open>None\<close>. Examples, links and security schemes have no children, so only the
  presence of their value is kept.
\<close>

datatype ExampleRef = MkExampleRef (exRef: string) (exHasValue: bool)

datatype LinkRef = MkLinkRef (lnRef: string) (lnHasValue: bool)

datatype SecuritySchemeRef = MkSecuritySchemeRef (ssRef: string) (ssHasValue: bool)

datatype Header = MkHeader (hdSchema: "SchemaRef option")

datatype HeaderRef = MkHeaderRef (hdRef: string) (hdValue: "Header option")

datatype MediaType = MkMediaType
  (mtSchema: "SchemaRef option")
  (mtExamples: "(string \<times> ExampleRef option) list")

datatype Parameter = MkParameter
  (paSchema: "SchemaRef option")
  (paExamples: "(string \<times> ExampleRef option) list")
  (paContent: "(string \<times> MediaType option) list")

datatype ParameterRef = MkParameterRef (paRef: string) (paValue: "Parameter option")

datatype RequestBody = MkRequestBody (rbContent: "(string \<times> MediaType option) list")

datatype RequestBodyRef = MkRequestBodyRef (rbRef: string) (rbValue: "RequestBody option")

datatype Response = MkResponse
  (rsHeaders: "(string \<times> HeaderRef option) list")
  (rsContent: "(string \<times> MediaType option) list")
  (rsLinks: "(string \<times> LinkRef option) list")

datatype ResponseRef = MkResponseRef (rsRef: string) (rsValue: "Response option")

datatype CallbackRef = MkCallbackRef (cbRef: string) (cbValue: "Callback option")
and Callback = MkCallback (cbMap: "(string \<times> PathItem) list")
and PathItem = MkPathItem
  (piParameters: "ParameterRef option list")
  (piOperations: "(string \<times> Operation option) list")
and Operation = MkOperation
  (opParameters: "ParameterRef option list")
  (opRequestBody: "RequestBodyRef option")
  (opResponses: "(string \<times> ResponseRef option) list option")
  (opCallbacks: "(string \<times> CallbackRef option) list")

datatype SourceRef =
  SchemaSource SchemaRef | ParameterSource ParameterRef | RequestBodySource RequestBodyRef
  | ResponseSource ResponseRef | CallbackSource CallbackRef | HeaderSource HeaderRef
  | SecuritySchemeSource SecuritySchemeRef | LinkSource LinkRef | ExampleSource ExampleRef

datatype RefWrapper = MkRefWrapper (wrRef: string) (wrHasValue: bool) (wrSourceRef: SourceRef)

text \<open>
  The visitor \<^verbatim>\<open>doFn\<close> is a closure over the caller's variables; the model passes their
  state \<open>'s\<close> through it. It answers with an error or with the flag
  \<^verbatim>\<open>shouldContinue\<close>.
\<close>

type_synonym 's doFn = "RefWrapper \<Rightarrow> 's \<Rightarrow> (error + bool) \<times> 's"

text \<open>
  \<^verbatim>\<open>walkSchemaRefWithVisited\<close>. The visited set is keyed by the address of the schema
  node. Every walker drops the error of the walkers it calls (\<^verbatim>\<open>_ = walk...\<close>), so only
  the state of a child walk is kept. The recursion descends into the schema, which is a
  finite tree.
\<close>

function (sequential) walkSchemaRefWithVisited ::
  "'s doFn \<Rightarrow> SchemaRef option \<Rightarrow> nat list \<times> 's \<Rightarrow> error option \<times> nat list \<times> 's" where
  "walkSchemaRefWithVisited doFn None st = (None, st)"
| "walkSchemaRefWithVisited doFn
     (Some (MkSchemaRef ref val items apHas apSchema oneOf anyOf allOf nt)) (visited, s) =
     (if (case val of None \<Rightarrow> False | Some v \<Rightarrow> oAddr v \<in> set visited) then (None, visited, s)
      else (let visited1 = (case val of None \<Rightarrow> visited | Some v \<Rightarrow> oAddr v # visited)
            in case doFn (MkRefWrapper ref (val \<noteq> None)
                      (SchemaSource (MkSchemaRef ref val items apHas apSchema oneOf anyOf allOf nt)))
                    s of
                 (Inl err, s1) \<Rightarrow> (Some err, visited1, s1)
               | (Inr shouldContinue, s1) \<Rightarrow>
                   if \<not> shouldContinue then (None, visited1, s1)
                   else (case val of
                           None \<Rightarrow> (None, visited1, s1)
                         | Some v \<Rightarrow>
                             (let st1 = fold (\<lambda>r st. snd (walkSchemaRefWithVisited doFn (Some r) st))
                                          oneOf (visited1, s1);
                                  st2 = fold (\<lambda>r st. snd (walkSchemaRefWithVisited doFn (Some r) st))
                                          anyOf st1;
                                  st3 = fold (\<lambda>r st. snd (walkSchemaRefWithVisited doFn (Some r) st))
                                          allOf st2;
                                  st4 = snd (walkSchemaRefWithVisited doFn nt st3);
                                  st5 = snd (walkSchemaRefWithVisited doFn items st4);
                                  st6 = fold (\<lambda>kv st.
                                                snd (walkSchemaRefWithVisited doFn (Some (snd kv)) st))
                                          (case PropertiesToMap v of None \<Rightarrow> [] | Some ps \<Rightarrow> ps)
                                          st5;
                                  st7 = snd (walkSchemaRefWithVisited doFn apSchema st6)
                              in (None, st7)))))"
  by pat_completeness auto
termination
proof -
  have m: "size x \<le> size_list size xs" if "x \<in> set xs" for x :: SchemaRef and xs
    using that by (induction xs) auto
  have p: "size r < size v" if "Some ps = PropertiesToMap v" and "(k, r) \<in> set ps"
    for ps v k and r :: SchemaRef
  proof -
    have "\<exists>qs. oProperties v = Some qs \<and> set ps \<subseteq> set qs"
      using that(1) by (auto simp: PropertiesToMap_def split: option.splits)
    then obtain qs where q: "oProperties v = Some qs" and ps: "set ps \<subseteq> set qs"
      by blast
    have "(k, r) \<in> set qs" using that(2) ps by blast
    then have "size_prod (\<lambda>x. 0) size (k, r) \<le> size_list (size_prod (\<lambda>x. 0) size) qs"
      by (rule size_list_estimation') simp
    moreover have "size_list (size_prod (\<lambda>x. 0) size) qs < size v"
      using q by (cases v) simp
    ultimately show ?thesis by simp
  qed
  show ?thesis
    by (relation "measure (\<lambda>(doFn, r, st). size_option size r)") (auto dest: m p)
qed

definition walkSchemaRef :: "'s doFn \<Rightarrow> SchemaRef option \<Rightarrow> 's \<Rightarrow> error option \<times> 's" where
  "walkSchemaRef doFn ref s =
     (case walkSchemaRefWithVisited doFn ref ([], s) of (err, visited, s1) \<Rightarrow> (err, s1))"

text \<open>
  The walkers of the other reference kinds begin alike: call the visitor, return its
  error, stop when it says so or when the reference has no value. \<open>visitRef\<close> is that
  common beginning, followed by the walk of the children.
\<close>

definition visitRef :: "'s doFn \<Rightarrow> RefWrapper \<Rightarrow> 's \<Rightarrow> ('s \<Rightarrow> 's) \<Rightarrow> error option \<times> 's" where
  "visitRef doFn refWrapper s children =
     (case doFn refWrapper s of
        (Inl err, s1) \<Rightarrow> (Some err, s1)
      | (Inr shouldContinue, s1) \<Rightarrow>
          if \<not> shouldContinue then (None, s1)
          else if \<not> wrHasValue refWrapper then (None, s1)
          else (None, children s1))"

definition walkExampleRef :: "'s doFn \<Rightarrow> ExampleRef option \<Rightarrow> 's \<Rightarrow> error option \<times> 's" where
  "walkExampleRef doFn ref s =
     (case ref of
        None \<Rightarrow> (None, s)
      | Some r \<Rightarrow> visitRef doFn (MkRefWrapper (exRef r) (exHasValue r) (ExampleSource r)) s (\<lambda>s1. s1))"

definition walkLinkRef :: "'s doFn \<Rightarrow> LinkRef option \<Rightarrow> 's \<Rightarrow> error option \<times> 's" where
  "walkLinkRef doFn ref s =
     (case ref of
        None \<Rightarrow> (None, s)
      | Some r \<Rightarrow> visitRef doFn (MkRefWrapper (lnRef r) (lnHasValue r) (LinkSource r)) s (\<lambda>s1. s1))"

definition walkSecuritySchemeRef ::
  "'s doFn \<Rightarrow> SecuritySchemeRef option \<Rightarrow> 's \<Rightarrow> error option \<times> 's" where
  "walkSecuritySchemeRef doFn ref s =
     (case ref of
        None \<Rightarrow> (None, s)
      | Some r \<Rightarrow>
          visitRef doFn (MkRefWrapper (ssRef r) (ssHasValue r) (SecuritySchemeSource r)) s
            (\<lambda>s1. s1))"

definition walkHeaderRef :: "'s doFn \<Rightarrow> HeaderRef option \<Rightarrow> 's \<Rightarrow> error option \<times> 's" where
  "walkHeaderRef doFn ref s =
     (case ref of
        None \<Rightarrow> (None, s)
      | Some r \<Rightarrow>
          visitRef doFn (MkRefWrapper (hdRef r) (hdValue r \<noteq> None) (HeaderSource r)) s
            (\<lambda>s1. case hdValue r of
                     None \<Rightarrow> s1
                   | Some v \<Rightarrow> snd (walkSchemaRef doFn (hdSchema v) s1)))"

text \<open>
  The loops over an example map and over a content map, which the source repeats in
  the walkers of parameters, request bodies and responses.
\<close>

definition walkExamples :: "'s doFn \<Rightarrow> (string \<times> ExampleRef option) list \<Rightarrow> 's \<Rightarrow> 's" where
  "walkExamples doFn examples s = fold (\<lambda>kv s1. snd (walkExampleRef doFn (snd kv) s1)) examples s"

definition walkContent :: "'s doFn \<Rightarrow> (string \<times> MediaType option) list \<Rightarrow> 's \<Rightarrow> 's" where
  "walkContent doFn content s =
     fold (\<lambda>kv s1. case snd kv of
                      None \<Rightarrow> s1
                    | Some mediaType \<Rightarrow>
                        walkExamples doFn (mtExamples mediaType)
                          (snd (walkSchemaRef doFn (mtSchema mediaType) s1)))
       content s"

definition walkParameterRef :: "'s doFn \<Rightarrow> ParameterRef option \<Rightarrow> 's \<Rightarrow> error option \<times> 's" where
  "walkParameterRef doFn ref s =
     (case ref of
        None \<Rightarrow> (None, s)
      | Some r \<Rightarrow>
          visitRef doFn (MkRefWrapper (paRef r) (paValue r \<noteq> None) (ParameterSource r)) s
            (\<lambda>s1. case paValue r of
                     None \<Rightarrow> s1
                   | Some v \<Rightarrow>
                       walkContent doFn (paContent v)
                         (walkExamples doFn (paExamples v)
                            (snd (walkSchemaRef doFn (paSchema v) s1)))))"

definition walkRequestBodyRef ::
  "'s doFn \<Rightarrow> RequestBodyRef option \<Rightarrow> 's \<Rightarrow> error option \<times> 's" where
  "walkRequestBodyRef doFn ref s =
     (case ref of
        None \<Rightarrow> (None, s)
      | Some r \<Rightarrow>
          visitRef doFn (MkRefWrapper (rbRef r) (rbValue r \<noteq> None) (RequestBodySource r)) s
            (\<lambda>s1. case rbValue r of None \<Rightarrow> s1 | Some v \<Rightarrow> walkContent doFn (rbContent v) s1))"

definition walkResponseRef :: "'s doFn \<Rightarrow> ResponseRef option \<Rightarrow> 's \<Rightarrow> error option \<times> 's" where
  "walkResponseRef doFn ref s =
     (case ref of
        None \<Rightarrow> (None, s)
      | Some r \<Rightarrow>
          visitRef doFn (MkRefWrapper (rsRef r) (rsValue r \<noteq> None) (ResponseSource r)) s
            (\<lambda>s1. case rsValue r of
                     None \<Rightarrow> s1
                   | Some v \<Rightarrow>
                       fold (\<lambda>kv s2. snd (walkLinkRef doFn (snd kv) s2)) (rsLinks v)
                         (walkContent doFn (rsContent v)
                            (fold (\<lambda>kv s2. snd (walkHeaderRef doFn (snd kv) s2)) (rsHeaders v)
                               s1))))"

text \<open>
  \<^verbatim>\<open>walkCallbackRef\<close> and \<^verbatim>\<open>walkOperation\<close> call each other; \<open>walkPathItem\<close> is the body
  of the loop over path items, which \<^verbatim>\<open>walkCallbackRef\<close> and \<^verbatim>\<open>walkSwagger\<close> share.
\<close>

fun walkCallbackRef :: "'s doFn \<Rightarrow> CallbackRef option \<Rightarrow> 's \<Rightarrow> error option \<times> 's"
  and walkPathItem :: "'s doFn \<Rightarrow> PathItem \<Rightarrow> 's \<Rightarrow> 's"
  and walkOperation :: "'s doFn \<Rightarrow> Operation option \<Rightarrow> 's \<Rightarrow> error option \<times> 's" where
  "walkCallbackRef doFn None s = (None, s)"
| "walkCallbackRef doFn (Some (MkCallbackRef ref val)) s =
     (case doFn (MkRefWrapper ref (val \<noteq> None) (CallbackSource (MkCallbackRef ref val))) s of
        (Inl err, s1) \<Rightarrow> (Some err, s1)
      | (Inr shouldContinue, s1) \<Rightarrow>
          if \<not> shouldContinue then (None, s1)
          else (case val of
                  None \<Rightarrow> (None, s1)
                | Some (MkCallback pathItems) \<Rightarrow>
                    (None, fold (\<lambda>kv s2. walkPathItem doFn (snd kv) s2) pathItems s1)))"
| "walkPathItem doFn (MkPathItem parameters operations) s =
     fold (\<lambda>kv s1. snd (walkOperation doFn (snd kv) s1)) operations
       (fold (\<lambda>param s1. snd (walkParameterRef doFn param s1)) parameters s)"
| "walkOperation doFn None s = (None, s)"
| "walkOperation doFn (Some (MkOperation parameters requestBody responses callbacks)) s =
     (let s1 = fold (\<lambda>param s0. snd (walkParameterRef doFn param s0)) parameters s;
          s2 = snd (walkRequestBodyRef doFn requestBody s1);
          s3 = (case responses of
                  None \<Rightarrow> s2
                | Some rs \<Rightarrow> fold (\<lambda>kv s0. snd (walkResponseRef doFn (snd kv) s0)) rs s2);
          s4 = fold (\<lambda>kv s0. snd (walkCallbackRef doFn (snd kv) s0)) callbacks s3
      in (None, s4))"


text \<open>
  The components and the document. \<^verbatim>\<open>walkSwagger\<close> returns before it visits anything
  when the document has no paths.
\<close>

record Components =
  Schemas :: "(string \<times> SchemaRef option) list"
  Parameters :: "(string \<times> ParameterRef option) list"
  Responses :: "(string \<times> ResponseRef option) list"
  RequestBodies :: "(string \<times> RequestBodyRef option) list"
  Headers :: "(string \<times> HeaderRef option) list"
  SecuritySchemes :: "(string \<times> SecuritySchemeRef option) list"
  Examples :: "(string \<times> ExampleRef option) list"
  Callbacks :: "(string \<times> CallbackRef option) list"
  Links :: "(string \<times> LinkRef option) list"

record T =
  Paths :: "(string \<times> PathItem) list option"
  Components :: "Components option"

definition walkComponents :: "'s doFn \<Rightarrow> Components option \<Rightarrow> 's \<Rightarrow> 's" where
  "walkComponents doFn components s =
     (case components of
        None \<Rightarrow> s
      | Some c \<Rightarrow>
          (let s1 = fold (\<lambda>kv s0. snd (walkSchemaRef doFn (snd kv) s0)) (Schemas c) s;
               s2 = fold (\<lambda>kv s0. snd (walkParameterRef doFn (snd kv) s0)) (Parameters c) s1;
               s3 = fold (\<lambda>kv s0. snd (walkHeaderRef doFn (snd kv) s0)) (Headers c) s2;
               s4 = fold (\<lambda>kv s0. snd (walkRequestBodyRef doFn (snd kv) s0)) (RequestBodies c) s3;
               s5 = fold (\<lambda>kv s0. snd (walkResponseRef doFn (snd kv) s0)) (Responses c) s4;
               s6 = fold (\<lambda>kv s0. snd (walkSecuritySchemeRef doFn (snd kv) s0))
                      (SecuritySchemes c) s5;
               s7 = fold (\<lambda>kv s0. snd (walkExampleRef doFn (snd kv) s0)) (Examples c) s6;
               s8 = fold (\<lambda>kv s0. snd (walkLinkRef doFn (snd kv) s0)) (Links c) s7
           in fold (\<lambda>kv s0. snd (walkCallbackRef doFn (snd kv) s0)) (Callbacks c) s8))"

definition walkSwagger :: "'s doFn \<Rightarrow> T option \<Rightarrow> 's \<Rightarrow> 's" where
  "walkSwagger doFn swagger s =
     (case swagger of
        None \<Rightarrow> s
      | Some t \<Rightarrow>
          (case Paths t of
             None \<Rightarrow> s
           | Some paths \<Rightarrow>
               walkComponents doFn (Components t)
                 (fold (\<lambda>kv s0. walkPathItem doFn (snd kv) s0) paths s)))"

text \<open>
  \<^verbatim>\<open>findComponentRefs\<close> records the \<^verbatim>\<open>Ref\<close> string of every reference the walk meets
  (\<open>recordRef\<close> is its closure), and then adds the reference string of every component
  schema that the walk has not recorded (\<open>markSchema\<close> is the body of that loop).
\<close>

fun stringInSlice :: "string \<Rightarrow> string list \<Rightarrow> bool" where
  "stringInSlice a [] = False"
| "stringInSlice a (b # list) = (if b = a then True else stringInSlice a list)"

definition recordRef :: "string list doFn" where
  "recordRef ref refs =
     (if wrRef ref \<noteq> [] then (Inr False, refs @ [wrRef ref]) else (Inr True, refs))"

definition markSchema :: "string \<Rightarrow> string list \<Rightarrow> string list" where
  "markSchema schemaName refs =
     (let schemaRef = ''#/components/schemas/'' @ schemaName
      in if stringInSlice schemaRef refs then refs else refs @ [schemaRef])"

definition findComponentRefs :: "T option \<Rightarrow> string list" where
  "findComponentRefs swagger =
     (let refs = walkSwagger recordRef swagger []
      in case swagger of
           None \<Rightarrow> refs
         | Some t \<Rightarrow>
             (case Components t of
                None \<Rightarrow> refs
              | Some c \<Rightarrow> fold (\<lambda>kv. markSchema (fst kv)) (Schemas c) refs))"

text \<open>
  \<^verbatim>\<open>removeOrphanedComponents\<close> deletes from every component map but the security
  schemes the entries whose reference string is not in \<open>refs\<close>, and counts them:
  \<open>retained\<close> is what a map keeps, \<open>orphans\<close> the number of entries it loses.
\<close>

definition retained :: "string \<Rightarrow> string list \<Rightarrow> (string \<times> 'a) list \<Rightarrow> (string \<times> 'a) list" where
  "retained prefix refs m = filter (\<lambda>kv. stringInSlice (prefix @ fst kv) refs) m"

definition orphans :: "string \<Rightarrow> string list \<Rightarrow> (string \<times> 'a) list \<Rightarrow> nat" where
  "orphans prefix refs m = length (filter (\<lambda>kv. \<not> stringInSlice (prefix @ fst kv) refs) m)"

definition removeOrphanedComponents :: "T option \<Rightarrow> string list \<Rightarrow> T option \<times> nat" where
  "removeOrphanedComponents swagger refs =
     (case swagger of
        None \<Rightarrow> (None, 0)
      | Some t \<Rightarrow>
          (case Components t of
             None \<Rightarrow> (swagger, 0)
           | Some c \<Rightarrow>
               (Some (t\<lparr>Components := Some (c\<lparr>
                   Schemas := retained ''#/components/schemas/'' refs (Schemas c),
                   Parameters := retained ''#/components/parameters/'' refs (Parameters c),
                   RequestBodies := retained ''#/components/requestBodies/'' refs (RequestBodies c),
                   Responses := retained ''#/components/responses/'' refs (Responses c),
                   Headers := retained ''#/components/headers/'' refs (Headers c),
                   Examples := retained ''#/components/examples/'' refs (Examples c),
                   Links := retained ''#/components/links/'' refs (Links c),
                   Callbacks := retained ''#/components/callbacks/'' refs (Callbacks c)\<rparr>)\<rparr>),
                orphans ''#/components/schemas/'' refs (Schemas c) +
                orphans ''#/components/parameters/'' refs (Parameters c) +
                orphans ''#/components/requestBodies/'' refs (RequestBodies c) +
                orphans ''#/components/responses/'' refs (Responses c) +
                orphans ''#/components/headers/'' refs (Headers c) +
                orphans ''#/components/examples/'' refs (Examples c) +
                orphans ''#/components/links/'' refs (Links c) +
                orphans ''#/components/callbacks/'' refs (Callbacks c))))"

text \<open>
  \<^verbatim>\<open>pruneUnusedComponents\<close> repeats the two steps until a pass removes nothing. Every
  other pass removes an entry, so the loop ends: \<open>prunable\<close> counts the entries that can
  still be removed.
\<close>

definition prunable :: "T option \<Rightarrow> nat" where
  "prunable swagger =
     (case swagger of
        None \<Rightarrow> 0
      | Some t \<Rightarrow>
          (case Components t of
             None \<Rightarrow> 0
           | Some c \<Rightarrow>
               length (Schemas c) + length (Parameters c) + length (RequestBodies c) +
               length (Responses c) + length (Headers c) + length (Examples c) +
               length (Links c) + length (Callbacks c)))"

function pruneUnusedComponents :: "T option \<Rightarrow> T option" where
  "pruneUnusedComponents swagger =
     (case swagger of
        None \<Rightarrow> None
      | Some t \<Rightarrow>
          (let refs = findComponentRefs swagger;
               r = removeOrphanedComponents swagger refs
           in if snd r < 1 then fst r else pruneUnusedComponents (fst r)))"
  by pat_completeness auto
termination
proof (relation "measure prunable")
  show "wf (measure prunable)" by simp
next
  fix swagger :: "T option" and t refs r
  assume a: "swagger = Some t" "refs = findComponentRefs swagger"
    "r = removeOrphanedComponents swagger refs" "\<not> snd r < 1"
  have l: "length (retained p refs m) + orphans p refs m = length m" for p and m :: "(string \<times> 'a) list"
    unfolding retained_def orphans_def by (rule sum_length_filter_compl)
  show "(fst r, swagger) \<in> measure prunable"
  proof (cases "Components t")
    case None
    then show ?thesis using a by (simp add: removeOrphanedComponents_def)
  next
    case (Some c)
    note l [of "''#/components/schemas/''" "Schemas c"]
      l [of "''#/components/parameters/''" "Parameters c"]
      l [of "''#/components/requestBodies/''" "RequestBodies c"]
      l [of "''#/components/responses/''" "Responses c"]
      l [of "''#/components/headers/''" "Headers c"]
      l [of "''#/components/examples/''" "Examples c"]
      l [of "''#/components/links/''" "Links c"]
      l [of "''#/components/callbacks/''" "Callbacks c"]
    then show ?thesis
      using a Some by (simp add: removeOrphanedComponents_def prunable_def) arith
  qed
qed

section \<open>A configuration to run the compiler on examples\<close>

text \<open>
  The default options, and an instance of the helper functions that agrees with the
  package's own on the names used in the examples below (plain component names, local
  references, properties listed in sorted order).
\<close>

definition defaultOptions :: Options where
  "defaultOptions =
     \<lparr>OldMergeSchemas = False, OldAliasing = False, OldEnumConflicts = False,
      AllowUnexportedStructFieldNames = False, DisableFlattenAdditionalProperties = False,
      DisableRequiredReadOnlyAsPointer = False, PreferSkipOptionalPointer = False,
      PreferSkipOptionalPointerOnContainerTypes = False,
      PreferSkipOptionalPointerWithOmitzero = False, NullableType = False,
      EnableYamlTags = False, DisableTypeAliasesForType = []\<rparr>"

definition lastSegment :: "string \<Rightarrow> string" where
  "lastSegment ref = rev (takeWhile (\<lambda>c. c \<noteq> CHR ''/'') (rev ref))"

definition sampleHelpers :: Helpers where
  "sampleHelpers =
     \<lparr>RefPathToGoType =
        (\<lambda>ref. if HasPrefix ref ''#/components/schemas/''
               then Inr (TrimPrefix ref ''#/components/schemas/'')
               else Inl (Err (''unsupported reference: '' @ ref))),
      IsGoTypeReference = (\<lambda>ref. ref \<noteq> [] \<and> ref \<noteq> ''#''),
      RefPathToObjName = lastSegment,
      PathToTypeName = concat,
      SchemaNameToTypeName = (\<lambda>name. name),
      SchemaHasAdditionalProperties =
        (\<lambda>schema. oAdditionalPropertiesHas schema \<or> oAdditionalPropertiesSchema schema \<noteq> None),
      SortedSchemaKeys = map fst,
      SortedMapKeys = map fst,
      StringInArray = (\<lambda>x xs. x \<in> set xs),
      sliceContains = (\<lambda>xs x. x \<in> set xs),
      SanitizeEnumNames = zip,
      StringWithTypeNameToGoComment = (\<lambda>description name. ''// '' @ name @ '' '' @ description),
      DeprecationComment = (\<lambda>reason. ''// Deprecated: '' @ reason),
      mergeSchemasV1 = (\<lambda>allOf path. Inl (Err ''mergeSchemasV1''))\<rparr>"

text \<open>Example schemas: a string enum, the same enum with no declared type.\<close>

definition colourEnum :: OSchema where
  "colourEnum = MkOSchema 0 [''string''] [] [] False None None None [] False None None None None
     None None None None [LitString ''red'', LitString ''blue'']"

definition untypedEnum :: OSchema where
  "untypedEnum = MkOSchema 0 [] [] [] False None None None [] False None None None None
     None None None None [LitString ''red'', LitString ''blue'']"

text \<open>Example schemas for allOf.\<close>

definition baseRef :: SchemaRef where
  "baseRef = NewSchemaRef ''#/components/schemas/Base''
     (Some (set_oType [''object''] zeroOSchema))"

definition petAllOf :: OSchema where
  "petAllOf = MkOSchema 0 [] [] [] False None None None [] False None None None None None
     (Some [baseRef]) None None []"

definition nameAllOf :: OSchema where
  "nameAllOf = MkOSchema 0 [] [] [] False None None None [] False None None None None None
     (Some [NewSchemaRef [] (Some (set_oType [''string''] zeroOSchema))]) None None []"

definition idString :: OSchema where
  "idString = set_oProperties
     (Some [(''id'', NewSchemaRef [] (Some (set_oType [''string''] zeroOSchema)))])
     (set_oType [''object''] zeroOSchema)"

definition idInteger :: OSchema where
  "idInteger = set_oProperties
     (Some [(''id'', NewSchemaRef [] (Some (set_oType [''integer''] zeroOSchema)))])
     (set_oType [''object''] zeroOSchema)"

definition clashAllOf :: OSchema where
  "clashAllOf = MkOSchema 0 [] [] [] False None None None [] False None None None None None
     (Some [NewSchemaRef [] (Some idString), NewSchemaRef [] (Some idInteger)]) None None []"




text \<open>
  A document whose only path refers to the parameter \<^verbatim>\<open>Limit\<close>; the parameter
  \<^verbatim>\<open>Unused\<close> is referenced by nothing and is the only user of the example \<^verbatim>\<open>E\<close>; the
  schema \<^verbatim>\<open>Orphan\<close> is referenced by nothing. \<open>prunedDoc\<close> is the same document without
  \<^verbatim>\<open>Unused\<close> and \<^verbatim>\<open>E\<close>, and \<open>orphanDoc\<close> has the schema \<^verbatim>\<open>Orphan\<close> alone.
\<close>

definition sampleDoc :: T where
  "sampleDoc =
     \<lparr>Paths = Some [(''/pets'',
          MkPathItem [Some (MkParameterRef ''#/components/parameters/Limit'' None)] [])],
      Components = Some
        \<lparr>Schemas = [(''Orphan'', Some (NewSchemaRef [] (Some idString)))],
         Parameters =
           [(''Limit'', Some (MkParameterRef [] (Some (MkParameter None [] [])))),
            (''Unused'', Some (MkParameterRef [] (Some (MkParameter None
               [(''e'', Some (MkExampleRef ''#/components/examples/E'' False))] []))))],
         Responses = [],
         RequestBodies = [],
         Headers = [],
         SecuritySchemes = [(''apiKey'', Some (MkSecuritySchemeRef [] True))],
         Examples = [(''E'', Some (MkExampleRef [] True))],
         Callbacks = [],
         Links = []\<rparr>\<rparr>"

definition orphanDoc :: T where
  "orphanDoc =
     \<lparr>Paths = Some [],
      Components = Some
        \<lparr>Schemas = [(''Orphan'', Some (NewSchemaRef [] (Some idString)))],
         Parameters = [], Responses = [], RequestBodies = [], Headers = [],
         SecuritySchemes = [], Examples = [], Callbacks = [], Links = []\<rparr>\<rparr>"

definition prunedDoc :: T where
  "prunedDoc =
     \<lparr>Paths = Some [(''/pets'',
          MkPathItem [Some (MkParameterRef ''#/components/parameters/Limit'' None)] [])],
      Components = Some
        \<lparr>Schemas = [(''Orphan'', Some (NewSchemaRef [] (Some idString)))],
         Parameters = [(''Limit'', Some (MkParameterRef [] (Some (MkParameter None [] []))))],
         Responses = [],
         RequestBodies = [],
         Headers = [],
         SecuritySchemes = [(''apiKey'', Some (MkSecuritySchemeRef [] True))],
         Examples = [],
         Callbacks = [],
         Links = []\<rparr>\<rparr>"



section \<open>Verified properties\<close>

subsection \<open>Field assignments\<close>

lemma schema_sel_set [simp]:
  "GoType (set_GoType v1 s) = v1" "GoType (set_RefType v2 s) = GoType s"
  "GoType (set_ArrayType v3 s) = GoType s" "GoType (set_EnumValues v4 s) = GoType s"
  "GoType (set_Properties v5 s) = GoType s"
  "GoType (set_HasAdditionalProperties v6 s) = GoType s"
  "GoType (set_AdditionalPropertiesType v7 s) = GoType s"
  "GoType (set_AdditionalTypes v8 s) = GoType s" "GoType (set_EmbeddedTypes v9 s) = GoType s"
  "GoType (set_SkipOptionalPointer v10 s) = GoType s"
  "GoType (set_Description v11 s) = GoType s" "GoType (set_UnionElements v12 s) = GoType s"
  "GoType (set_Discriminator v13 s) = GoType s" "GoType (set_DefineViaAlias v14 s) = GoType s"
  "GoType (set_OAPISchema v15 s) = GoType s" "RefType (set_GoType v1 s) = RefType s"
  "RefType (set_RefType v2 s) = v2" "RefType (set_ArrayType v3 s) = RefType s"
  "RefType (set_EnumValues v4 s) = RefType s" "RefType (set_Properties v5 s) = RefType s"
  "RefType (set_HasAdditionalProperties v6 s) = RefType s"
  "RefType (set_AdditionalPropertiesType v7 s) = RefType s"
  "RefType (set_AdditionalTypes v8 s) = RefType s"
  "RefType (set_EmbeddedTypes v9 s) = RefType s"
  "RefType (set_SkipOptionalPointer v10 s) = RefType s"
  "RefType (set_Description v11 s) = RefType s"
  "RefType (set_UnionElements v12 s) = RefType s"
  "RefType (set_Discriminator v13 s) = RefType s"
  "RefType (set_DefineViaAlias v14 s) = RefType s"
  "RefType (set_OAPISchema v15 s) = RefType s" "ArrayType (set_GoType v1 s) = ArrayType s"
  "ArrayType (set_RefType v2 s) = ArrayType s" "ArrayType (set_ArrayType v3 s) = v3"
  "ArrayType (set_EnumValues v4 s) = ArrayType s"
  "ArrayType (set_Properties v5 s) = ArrayType s"
  "ArrayType (set_HasAdditionalProperties v6 s) = ArrayType s"
  "ArrayType (set_AdditionalPropertiesType v7 s) = ArrayType s"
  "ArrayType (set_AdditionalTypes v8 s) = ArrayType s"
  "ArrayType (set_EmbeddedTypes v9 s) = ArrayType s"
  "ArrayType (set_SkipOptionalPointer v10 s) = ArrayType s"
  "ArrayType (set_Description v11 s) = ArrayType s"
  "ArrayType (set_UnionElements v12 s) = ArrayType s"
  "ArrayType (set_Discriminator v13 s) = ArrayType s"
  "ArrayType (set_DefineViaAlias v14 s) = ArrayType s"
  "ArrayType (set_OAPISchema v15 s) = ArrayType s"
  "EnumValues (set_GoType v1 s) = EnumValues s" "EnumValues (set_RefType v2 s) = EnumValues s"
  "EnumValues (set_ArrayType v3 s) = EnumValues s" "EnumValues (set_EnumValues v4 s) = v4"
  "EnumValues (set_Properties v5 s) = EnumValues s"
  "EnumValues (set_HasAdditionalProperties v6 s) = EnumValues s"
  "EnumValues (set_AdditionalPropertiesType v7 s) = EnumValues s"
  "EnumValues (set_AdditionalTypes v8 s) = EnumValues s"
  "EnumValues (set_EmbeddedTypes v9 s) = EnumValues s"
  "EnumValues (set_SkipOptionalPointer v10 s) = EnumValues s"
  "EnumValues (set_Description v11 s) = EnumValues s"
  "EnumValues (set_UnionElements v12 s) = EnumValues s"
  "EnumValues (set_Discriminator v13 s) = EnumValues s"
  "EnumValues (set_DefineViaAlias v14 s) = EnumValues s"
  "EnumValues (set_OAPISchema v15 s) = EnumValues s"
  "Properties (set_GoType v1 s) = Properties s" "Properties (set_RefType v2 s) = Properties s"
  "Properties (set_ArrayType v3 s) = Properties s"
  "Properties (set_EnumValues v4 s) = Properties s" "Properties (set_Properties v5 s) = v5"
  "Properties (set_HasAdditionalProperties v6 s) = Properties s"
  "Properties (set_AdditionalPropertiesType v7 s) = Properties s"
  "Properties (set_AdditionalTypes v8 s) = Properties s"
  "Properties (set_EmbeddedTypes v9 s) = Properties s"
  "Properties (set_SkipOptionalPointer v10 s) = Properties s"
  "Properties (set_Description v11 s) = Properties s"
  "Properties (set_UnionElements v12 s) = Properties s"
  "Properties (set_Discriminator v13 s) = Properties s"
  "Properties (set_DefineViaAlias v14 s) = Properties s"
  "Properties (set_OAPISchema v15 s) = Properties s"
  "HasAdditionalProperties (set_GoType v1 s) = HasAdditionalProperties s"
  "HasAdditionalProperties (set_RefType v2 s) = HasAdditionalProperties s"
  "HasAdditionalProperties (set_ArrayType v3 s) = HasAdditionalProperties s"
  "HasAdditionalProperties (set_EnumValues v4 s) = HasAdditionalProperties s"
  "HasAdditionalProperties (set_Properties v5 s) = HasAdditionalProperties s"
  "HasAdditionalProperties (set_HasAdditionalProperties v6 s) = v6"
  "HasAdditionalProperties (set_AdditionalPropertiesType v7 s) = HasAdditionalProperties s"
  "HasAdditionalProperties (set_AdditionalTypes v8 s) = HasAdditionalProperties s"
  "HasAdditionalProperties (set_EmbeddedTypes v9 s) = HasAdditionalProperties s"
  "HasAdditionalProperties (set_SkipOptionalPointer v10 s) = HasAdditionalProperties s"
  "HasAdditionalProperties (set_Description v11 s) = HasAdditionalProperties s"
  "HasAdditionalProperties (set_UnionElements v12 s) = HasAdditionalProperties s"
  "HasAdditionalProperties (set_Discriminator v13 s) = HasAdditionalProperties s"
  "HasAdditionalProperties (set_DefineViaAlias v14 s) = HasAdditionalProperties s"
  "HasAdditionalProperties (set_OAPISchema v15 s) = HasAdditionalProperties s"
  "AdditionalPropertiesType (set_GoType v1 s) = AdditionalPropertiesType s"
  "AdditionalPropertiesType (set_RefType v2 s) = AdditionalPropertiesType s"
  "AdditionalPropertiesType (set_ArrayType v3 s) = AdditionalPropertiesType s"
  "AdditionalPropertiesType (set_EnumValues v4 s) = AdditionalPropertiesType s"
  "AdditionalPropertiesType (set_Properties v5 s) = AdditionalPropertiesType s"
  "AdditionalPropertiesType (set_HasAdditionalProperties v6 s) = AdditionalPropertiesType s"
  "AdditionalPropertiesType (set_AdditionalPropertiesType v7 s) = v7"
  "AdditionalPropertiesType (set_AdditionalTypes v8 s) = AdditionalPropertiesType s"
  "AdditionalPropertiesType (set_EmbeddedTypes v9 s) = AdditionalPropertiesType s"
  "AdditionalPropertiesType (set_SkipOptionalPointer v10 s) = AdditionalPropertiesType s"
  "AdditionalPropertiesType (set_Description v11 s) = AdditionalPropertiesType s"
  "AdditionalPropertiesType (set_UnionElements v12 s) = AdditionalPropertiesType s"
  "AdditionalPropertiesType (set_Discriminator v13 s) = AdditionalPropertiesType s"
  "AdditionalPropertiesType (set_DefineViaAlias v14 s) = AdditionalPropertiesType s"
  "AdditionalPropertiesType (set_OAPISchema v15 s) = AdditionalPropertiesType s"
  "AdditionalTypes (set_GoType v1 s) = AdditionalTypes s"
  "AdditionalTypes (set_RefType v2 s) = AdditionalTypes s"
  "AdditionalTypes (set_ArrayType v3 s) = AdditionalTypes s"
  "AdditionalTypes (set_EnumValues v4 s) = AdditionalTypes s"
  "AdditionalTypes (set_Properties v5 s) = AdditionalTypes s"
  "AdditionalTypes (set_HasAdditionalProperties v6 s) = AdditionalTypes s"
  "AdditionalTypes (set_AdditionalPropertiesType v7 s) = AdditionalTypes s"
  "AdditionalTypes (set_AdditionalTypes v8 s) = v8"
  "AdditionalTypes (set_EmbeddedTypes v9 s) = AdditionalTypes s"
  "AdditionalTypes (set_SkipOptionalPointer v10 s) = AdditionalTypes s"
  "AdditionalTypes (set_Description v11 s) = AdditionalTypes s"
  "AdditionalTypes (set_UnionElements v12 s) = AdditionalTypes s"
  "AdditionalTypes (set_Discriminator v13 s) = AdditionalTypes s"
  "AdditionalTypes (set_DefineViaAlias v14 s) = AdditionalTypes s"
  "AdditionalTypes (set_OAPISchema v15 s) = AdditionalTypes s"
  "EmbeddedTypes (set_GoType v1 s) = EmbeddedTypes s"
  "EmbeddedTypes (set_RefType v2 s) = EmbeddedTypes s"
  "EmbeddedTypes (set_ArrayType v3 s) = EmbeddedTypes s"
  "EmbeddedTypes (set_EnumValues v4 s) = EmbeddedTypes s"
  "EmbeddedTypes (set_Properties v5 s) = EmbeddedTypes s"
  "EmbeddedTypes (set_HasAdditionalProperties v6 s) = EmbeddedTypes s"
  "EmbeddedTypes (set_AdditionalPropertiesType v7 s) = EmbeddedTypes s"
  "EmbeddedTypes (set_AdditionalTypes v8 s) = EmbeddedTypes s"
  "EmbeddedTypes (set_EmbeddedTypes v9 s) = v9"
  "EmbeddedTypes (set_SkipOptionalPointer v10 s) = EmbeddedTypes s"
  "EmbeddedTypes (set_Description v11 s) = EmbeddedTypes s"
  "EmbeddedTypes (set_UnionElements v12 s) = EmbeddedTypes s"
  "EmbeddedTypes (set_Discriminator v13 s) = EmbeddedTypes s"
  "EmbeddedTypes (set_DefineViaAlias v14 s) = EmbeddedTypes s"
  "EmbeddedTypes (set_OAPISchema v15 s) = EmbeddedTypes s"
  "SkipOptionalPointer (set_GoType v1 s) = SkipOptionalPointer s"
  "SkipOptionalPointer (set_RefType v2 s) = SkipOptionalPointer s"
  "SkipOptionalPointer (set_ArrayType v3 s) = SkipOptionalPointer s"
  "SkipOptionalPointer (set_EnumValues v4 s) = SkipOptionalPointer s"
  "SkipOptionalPointer (set_Properties v5 s) = SkipOptionalPointer s"
  "SkipOptionalPointer (set_HasAdditionalProperties v6 s) = SkipOptionalPointer s"
  "SkipOptionalPointer (set_AdditionalPropertiesType v7 s) = SkipOptionalPointer s"
  "SkipOptionalPointer (set_AdditionalTypes v8 s) = SkipOptionalPointer s"
  "SkipOptionalPointer (set_EmbeddedTypes v9 s) = SkipOptionalPointer s"
  "SkipOptionalPointer (set_SkipOptionalPointer v10 s) = v10"
  "SkipOptionalPointer (set_Description v11 s) = SkipOptionalPointer s"
  "SkipOptionalPointer (set_UnionElements v12 s) = SkipOptionalPointer s"
  "SkipOptionalPointer (set_Discriminator v13 s) = SkipOptionalPointer s"
  "SkipOptionalPointer (set_DefineViaAlias v14 s) = SkipOptionalPointer s"
  "SkipOptionalPointer (set_OAPISchema v15 s) = SkipOptionalPointer s"
  "Description (set_GoType v1 s) = Description s"
  "Description (set_RefType v2 s) = Description s"
  "Description (set_ArrayType v3 s) = Description s"
  "Description (set_EnumValues v4 s) = Description s"
  "Description (set_Properties v5 s) = Description s"
  "Description (set_HasAdditionalProperties v6 s) = Description s"
  "Description (set_AdditionalPropertiesType v7 s) = Description s"
  "Description (set_AdditionalTypes v8 s) = Description s"
  "Description (set_EmbeddedTypes v9 s) = Description s"
  "Description (set_SkipOptionalPointer v10 s) = Description s"
  "Description (set_Description v11 s) = v11"
  "Description (set_UnionElements v12 s) = Description s"
  "Description (set_Discriminator v13 s) = Description s"
  "Description (set_DefineViaAlias v14 s) = Description s"
  "Description (set_OAPISchema v15 s) = Description s"
  "UnionElements (set_GoType v1 s) = UnionElements s"
  "UnionElements (set_RefType v2 s) = UnionElements s"
  "UnionElements (set_ArrayType v3 s) = UnionElements s"
  "UnionElements (set_EnumValues v4 s) = UnionElements s"
  "UnionElements (set_Properties v5 s) = UnionElements s"
  "UnionElements (set_HasAdditionalProperties v6 s) = UnionElements s"
  "UnionElements (set_AdditionalPropertiesType v7 s) = UnionElements s"
  "UnionElements (set_AdditionalTypes v8 s) = UnionElements s"
  "UnionElements (set_EmbeddedTypes v9 s) = UnionElements s"
  "UnionElements (set_SkipOptionalPointer v10 s) = UnionElements s"
  "UnionElements (set_Description v11 s) = UnionElements s"
  "UnionElements (set_UnionElements v12 s) = v12"
  "UnionElements (set_Discriminator v13 s) = UnionElements s"
  "UnionElements (set_DefineViaAlias v14 s) = UnionElements s"
  "UnionElements (set_OAPISchema v15 s) = UnionElements s"
  "Discriminator (set_GoType v1 s) = Discriminator s"
  "Discriminator (set_RefType v2 s) = Discriminator s"
  "Discriminator (set_ArrayType v3 s) = Discriminator s"
  "Discriminator (set_EnumValues v4 s) = Discriminator s"
  "Discriminator (set_Properties v5 s) = Discriminator s"
  "Discriminator (set_HasAdditionalProperties v6 s) = Discriminator s"
  "Discriminator (set_AdditionalPropertiesType v7 s) = Discriminator s"
  "Discriminator (set_AdditionalTypes v8 s) = Discriminator s"
  "Discriminator (set_EmbeddedTypes v9 s) = Discriminator s"
  "Discriminator (set_SkipOptionalPointer v10 s) = Discriminator s"
  "Discriminator (set_Description v11 s) = Discriminator s"
  "Discriminator (set_UnionElements v12 s) = Discriminator s"
  "Discriminator (set_Discriminator v13 s) = v13"
  "Discriminator (set_DefineViaAlias v14 s) = Discriminator s"
  "Discriminator (set_OAPISchema v15 s) = Discriminator s"
  "DefineViaAlias (set_GoType v1 s) = DefineViaAlias s"
  "DefineViaAlias (set_RefType v2 s) = DefineViaAlias s"
  "DefineViaAlias (set_ArrayType v3 s) = DefineViaAlias s"
  "DefineViaAlias (set_EnumValues v4 s) = DefineViaAlias s"
  "DefineViaAlias (set_Properties v5 s) = DefineViaAlias s"
  "DefineViaAlias (set_HasAdditionalProperties v6 s) = DefineViaAlias s"
  "DefineViaAlias (set_AdditionalPropertiesType v7 s) = DefineViaAlias s"
  "DefineViaAlias (set_AdditionalTypes v8 s) = DefineViaAlias s"
  "DefineViaAlias (set_EmbeddedTypes v9 s) = DefineViaAlias s"
  "DefineViaAlias (set_SkipOptionalPointer v10 s) = DefineViaAlias s"
  "DefineViaAlias (set_Description v11 s) = DefineViaAlias s"
  "DefineViaAlias (set_UnionElements v12 s) = DefineViaAlias s"
  "DefineViaAlias (set_Discriminator v13 s) = DefineViaAlias s"
  "DefineViaAlias (set_DefineViaAlias v14 s) = v14"
  "DefineViaAlias (set_OAPISchema v15 s) = DefineViaAlias s"
  "OAPISchema (set_GoType v1 s) = OAPISchema s" "OAPISchema (set_RefType v2 s) = OAPISchema s"
  "OAPISchema (set_ArrayType v3 s) = OAPISchema s"
  "OAPISchema (set_EnumValues v4 s) = OAPISchema s"
  "OAPISchema (set_Properties v5 s) = OAPISchema s"
  "OAPISchema (set_HasAdditionalProperties v6 s) = OAPISchema s"
  "OAPISchema (set_AdditionalPropertiesType v7 s) = OAPISchema s"
  "OAPISchema (set_AdditionalTypes v8 s) = OAPISchema s"
  "OAPISchema (set_EmbeddedTypes v9 s) = OAPISchema s"
  "OAPISchema (set_SkipOptionalPointer v10 s) = OAPISchema s"
  "OAPISchema (set_Description v11 s) = OAPISchema s"
  "OAPISchema (set_UnionElements v12 s) = OAPISchema s"
  "OAPISchema (set_Discriminator v13 s) = OAPISchema s"
  "OAPISchema (set_DefineViaAlias v14 s) = OAPISchema s"
  "OAPISchema (set_OAPISchema v15 s) = v15"
  by (simp_all add: schema_setters)

lemma oschema_sel_set [simp]:
  "oType (set_oType ts s) = ts" "oType (set_oNullable b s) = oType s"
  "oNullable (set_oNullable b s) = b" "oNullable (set_oType ts s) = oNullable s"
  "oFormat (set_oType ts s) = oFormat s" "oFormat (set_oNullable b s) = oFormat s"
  "oItems (set_oType ts s) = oItems s" "oItems (set_oNullable b s) = oItems s"
  by (simp_all add: set_oType_def set_oNullable_def)

lemma set_oNullable_idem [simp]: "set_oNullable b (set_oNullable c s) = set_oNullable b s"
  by (simp add: set_oNullable_def)

lemma set_oType_idem [simp]: "set_oType ts (set_oType us s) = set_oType ts s"
  by (simp add: set_oType_def)

lemma set_oType_Nullable_commute:
  "set_oType ts (set_oNullable b s) = set_oNullable b (set_oType ts s)"
  by (simp add: set_oType_def set_oNullable_def)


subsection \<open>Name collision resolution\<close>







subsection \<open>References and degraded results\<close>

lemma HasPrefix_append [simp]: "HasPrefix (p @ x) p"
  by (induction p) simp_all

lemma TrimPrefix_append [simp]: "TrimPrefix (p @ x) p = x"
  by (simp add: TrimPrefix_def)

lemma Contains_append: "Contains (p @ x) p"
  by (cases "p @ x") (use HasPrefix_append [of p x] in auto)

lemma GenerateGoSchema_nil:
  "GenerateGoSchema (Suc n) h opts None path =
     Some (Inr (set_GoType ''interface{}'' zeroSchema, None))"
  by (simp add: GenerateGoSchema_body_def)

lemma GenerateGoSchema_unresolved:
  "Value sref = None \<Longrightarrow>
   GenerateGoSchema (Suc n) h opts (Some sref) path = Some (Inr (unresolvedSchema h sref, None))"
  by (simp add: GenerateGoSchema_body_def)

lemma GenerateGoSchema_reference:
  "Value sref = Some schema \<Longrightarrow> IsGoTypeReference h (Ref sref) \<Longrightarrow>
   skipOptionalPointerOf opts schema = Inr skip \<Longrightarrow>
   GenerateGoSchema (Suc n) h opts (Some sref) path = referenceSchema h sref schema path skip"
  by (simp add: GenerateGoSchema_body_def)

text \<open>
  Claim C9, as the code has it. An absent schema reference compiles, with no error, to
  the descriptor of \<^verbatim>\<open>interface{}\<close>, and the descriptor is not marked as an alias. A
  reference whose value is missing compiles with no error as well, to a descriptor that
  is not marked as an alias either: it names the Go type of the reference path when the
  reference is not empty and its path converts, and \<^verbatim>\<open>interface{}\<close> otherwise.
\<close>

theorem degraded_compilation:
  "GenerateGoSchema (Suc n) h opts None path =
     Some (Inr (MkSchema ''interface{}'' [] None [] [] False None [] [] False [] [] None False
                  None, None)) \<and>
   (Value sref = None \<longrightarrow>
      GenerateGoSchema (Suc n) h opts (Some sref) path =
        Some (Inr (MkSchema
                    (case RefPathToGoType h (Ref sref) of
                       Inl e \<Rightarrow> ''interface{}''
                     | Inr refType \<Rightarrow> if Ref sref = [] then ''interface{}'' else refType)
                    (case RefPathToGoType h (Ref sref) of
                       Inl e \<Rightarrow> ''interface{}''
                     | Inr refType \<Rightarrow> if Ref sref = [] then ''interface{}'' else refType)
                    None [] [] False None [] [] False [] [] None False None, None)))"
  by (auto simp: GenerateGoSchema_nil GenerateGoSchema_unresolved unresolvedSchema_def
      zeroSchema_def set_GoType_def set_RefType_def simp del: GenerateGoSchema.simps
      split: sum.splits)

theorem degraded_compilation_witness:
  "Value (NewSchemaRef ''other.yaml#/Pet'' None) = None \<and>
   GenerateGoSchema (Suc 0) sampleHelpers defaultOptions
     (Some (NewSchemaRef ''other.yaml#/Pet'' None)) [] =
     Some (Inr (MkSchema ''interface{}'' ''interface{}'' None [] [] False None [] [] False [] []
                  None False None, None))"
  using degraded_compilation [of 0 sampleHelpers defaultOptions "[]"
      "NewSchemaRef ''other.yaml#/Pet'' None"]
  by (simp add: NewSchemaRef_def sampleHelpers_def del: GenerateGoSchema.simps)

text \<open>
  Claim C9 as stated fails: the absent reference compiles to a descriptor whose
  \<^verbatim>\<open>DefineViaAlias\<close> flag is false, and the unresolved reference to
  \<^verbatim>\<open>#/components/schemas/Pet\<close> compiles to the type \<^verbatim>\<open>Pet\<close>, not to \<^verbatim>\<open>interface{}\<close>.
\<close>

theorem degraded_compilation_counterexample:
  "GenerateGoSchema (Suc 0) sampleHelpers defaultOptions None [] =
     Some (Inr (MkSchema ''interface{}'' [] None [] [] False None [] [] False [] [] None False
                  None, None)) \<and>
   \<not> DefineViaAlias (MkSchema ''interface{}'' [] None [] [] False None [] [] False [] [] None
                      False None) \<and>
   GenerateGoSchema (Suc 0) sampleHelpers defaultOptions
     (Some (NewSchemaRef ''#/components/schemas/Pet'' None)) [''owner'', ''pet''] =
     Some (Inr (MkSchema ''Pet'' ''Pet'' None [] [] False None [] [] False [] [] None False None,
                None))"
  by (simp add: GenerateGoSchema_body_def zeroSchema_def schema_setters unresolvedSchema_def
      NewSchemaRef_def sampleHelpers_def TrimPrefix_def)

text \<open>
  Claim C6. A resolved reference to \<^verbatim>\<open>#/components/schemas/X\<close> compiles to a
  descriptor that spells the referenced type; its \<^verbatim>\<open>DefineViaAlias\<close> flag is false at
  the defining occurrence, where the path is \<open>[X]\<close>, and true at every other path.
\<close>

theorem defining_occurrence_not_alias:
  assumes "Value sref = Some schema"
    and "Ref sref = ''#/components/schemas/'' @ X"
    and "IsGoTypeReference h (Ref sref)"
    and "RefPathToGoType h (Ref sref) = Inr refType"
    and "skipOptionalPointerOf opts schema = Inr skip"
  shows "GenerateGoSchema (Suc n) h opts (Some sref) path =
           Some (Inr (MkSchema refType refType None [] [] False None [] [] skip
                        (oDescription schema) [] None (path \<noteq> [X]) (Some schema),
                      Some schema))"
proof -
  have c: "Contains (Ref sref) ''#/components/schemas/''"
    by (simp only: assms(2) Contains_append)
  have t: "TrimPrefix (Ref sref) ''#/components/schemas/'' = X"
    by (simp only: assms(2) TrimPrefix_append)
  have "referenceSchema h sref schema path skip =
          Some (Inr (MkSchema refType refType None [] [] False None [] [] skip
                       (oDescription schema) [] None (path \<noteq> [X]) (Some schema),
                     Some schema))"
    unfolding referenceSchema_def by (cases path) (auto simp: assms(4) c t)
  then show ?thesis
    by (simp only: GenerateGoSchema_reference [OF assms(1,3,5)])
qed

theorem defining_occurrence_not_alias_witness:
  "GenerateGoSchema (Suc 0) sampleHelpers defaultOptions
     (Some (NewSchemaRef ''#/components/schemas/Pet'' (Some zeroOSchema))) [''Pet''] =
     Some (Inr (MkSchema ''Pet'' ''Pet'' None [] [] False None [] [] False [] [] None False
                  (Some zeroOSchema), Some zeroOSchema)) \<and>
   GenerateGoSchema (Suc 0) sampleHelpers defaultOptions
     (Some (NewSchemaRef ''#/components/schemas/Pet'' (Some zeroOSchema))) [''Owner'', ''pet''] =
     Some (Inr (MkSchema ''Pet'' ''Pet'' None [] [] False None [] [] False [] [] None True
                  (Some zeroOSchema), Some zeroOSchema))"
proof -
  let ?r = "NewSchemaRef (''#/components/schemas/'' @ ''Pet'') (Some zeroOSchema)"
  have v: "Value ?r = Some zeroOSchema" and r: "Ref ?r = ''#/components/schemas/'' @ ''Pet''"
    by (simp_all add: NewSchemaRef_def)
  have g: "IsGoTypeReference sampleHelpers (Ref ?r)"
    by (simp add: sampleHelpers_def NewSchemaRef_def)
  have t: "RefPathToGoType sampleHelpers (Ref ?r) = Inr ''Pet''"
    by (simp add: sampleHelpers_def NewSchemaRef_def TrimPrefix_def)
  have k: "skipOptionalPointerOf defaultOptions zeroOSchema = Inr False"
    by (simp add: skipOptionalPointerOf_def zeroOSchema_def defaultOptions_def)
  show ?thesis
    using defining_occurrence_not_alias [OF v r g t k, of 0 "[''Pet'']"]
      defining_occurrence_not_alias [OF v r g t k, of 0 "[''Owner'', ''pet'']"]
    by (simp add: zeroOSchema_def del: GenerateGoSchema.simps)
qed


subsection \<open>Untyped schemas, enums and nullable types\<close>

lemma GenerateGoSchema_inline:
  assumes "Value sref = Some schema"
    and "\<not> IsGoTypeReference h (Ref sref)"
    and "skipOptionalPointerOf opts schema = Inr skip"
    and "oAllOf schema = None"
    and "map_of (oExtensions schema) extPropGoType = None"
  shows "GenerateGoSchema (Suc n) h opts (Some sref) path =
           (let outSchema = MkSchema [] [] None [] [] False None [] [] skip (oDescription schema)
                              [] None False (Some schema)
            in if length (TypeSlice schema) = 0 \<or> TypeIs schema ''object''
               then objectSchema (GenerateGoSchema n h opts) h opts schema path outSchema
               else if 0 < length (Enum schema)
               then enumSchema (GenerateGoSchema n h opts) h opts schema path outSchema
               else primitiveSchema (GenerateGoSchema n h opts) h opts schema path outSchema)"
  using assms
  by (simp add: GenerateGoSchema_body_def zeroSchema_def set_Description_def set_OAPISchema_def
      set_SkipOptionalPointer_def Let_def)






lemma enumSchema_not_alias:
  "enumSchema gen h opts schema path outSchema = Some (Inr (s, node)) \<Longrightarrow> \<not> DefineViaAlias s"
  unfolding enumSchema_def Let_def
  by (auto split: option.splits sum.splits prod.splits if_splits)

lemma primitiveGoType_returns:
  "\<not> TypeIs schema ''array'' \<Longrightarrow> primitiveGoType gen h opts schema t path outSchema \<noteq> None"
  unfolding primitiveGoType_def by (simp add: Let_def)

lemma oapiSchemaToGoType_returns:
  assumes "\<not> TypeIs schema ''array''"
  shows "oapiSchemaToGoType gen h opts schema path outSchema \<noteq> None"
proof -
  have a: "\<And>t. primitiveGoType gen h opts schema t path outSchema \<noteq> None"
    by (rule primitiveGoType_returns [OF assms])
  have "\<not> TypeIs (set_oNullable True schema) ''array''"
    using assms by (simp add: TypeIs_def set_oNullable_def)
  then have b: "\<And>t. primitiveGoType gen h opts (set_oNullable True schema) t path outSchema \<noteq> None"
    by (rule primitiveGoType_returns)
  show ?thesis
    unfolding oapiSchemaToGoType_def Let_def
    by (auto simp: a b split: option.splits sum.splits)
qed

lemma enumSchema_returns:
  "\<not> TypeIs schema ''array'' \<Longrightarrow> enumSchema gen h opts schema path outSchema \<noteq> None"
  using oapiSchemaToGoType_returns [of schema gen h opts path outSchema]
  unfolding enumSchema_def Let_def
  by (auto split: option.splits sum.splits prod.splits)

text \<open>
  Claim C5, as the code has it. An inline schema with enum values whose declared type set
  is not empty and has no \<^verbatim>\<open>object\<close> (no allOf, no \<^verbatim>\<open>x-go-type\<close>) compiles, when it
  compiles, to a descriptor with \<^verbatim>\<open>DefineViaAlias\<close> false; and unless it is an array the
  compilation returns within one level of recursion.
\<close>

theorem enum_is_named_type:
  assumes "Value sref = Some schema"
    and "\<not> IsGoTypeReference h (Ref sref)"
    and "skipOptionalPointerOf opts schema = Inr skip"
    and "oAllOf schema = None"
    and "map_of (oExtensions schema) extPropGoType = None"
    and "oType schema \<noteq> []" and "\<not> TypeIs schema ''object''"
    and "Enum schema \<noteq> []"
  shows "(\<forall>s node. GenerateGoSchema (Suc n) h opts (Some sref) path = Some (Inr (s, node)) \<longrightarrow>
            \<not> DefineViaAlias s) \<and>
         (\<not> TypeIs schema ''array'' \<longrightarrow> GenerateGoSchema (Suc n) h opts (Some sref) path \<noteq> None)"
  using assms(6-8) enumSchema_not_alias enumSchema_returns
  by (simp add: GenerateGoSchema_inline [OF assms(1-5)] TypeSlice_def
        del: GenerateGoSchema.simps)

theorem enum_is_named_type_witness:
  "GenerateGoSchema (Suc 0) sampleHelpers defaultOptions
     (Some (NewSchemaRef [] (Some colourEnum))) [''Colour''] =
     Some (Inr (MkSchema ''string'' [] None [(''red'', ''red''), (''blue'', ''blue'')] [] False None
                  [] [] False [] [] None False (Some colourEnum), Some colourEnum)) \<and>
   \<not> DefineViaAlias
       (MkSchema ''string'' [] None [(''red'', ''red''), (''blue'', ''blue'')] [] False None
          [] [] False [] [] None False (Some colourEnum)) \<and>
   GenerateGoSchema (Suc 0) sampleHelpers defaultOptions
     (Some (NewSchemaRef [] (Some colourEnum))) [''Colour''] \<noteq> None"
proof -
  let ?r = "NewSchemaRef [] (Some colourEnum)"
  have 1: "Value ?r = Some colourEnum" by (simp add: NewSchemaRef_def)
  have 2: "\<not> IsGoTypeReference sampleHelpers (Ref ?r)"
    by (simp add: NewSchemaRef_def sampleHelpers_def)
  have 3: "skipOptionalPointerOf defaultOptions colourEnum = Inr False"
    by (simp add: skipOptionalPointerOf_def colourEnum_def defaultOptions_def)
  have 4: "oAllOf colourEnum = None" "map_of (oExtensions colourEnum) extPropGoType = None"
    "oType colourEnum \<noteq> []" "\<not> TypeIs colourEnum ''object''" "Enum colourEnum \<noteq> []"
    and 5: "\<not> TypeIs colourEnum ''array''"
    by (simp_all add: colourEnum_def TypeIs_def Enum_def)
  have e: "GenerateGoSchema (Suc 0) sampleHelpers defaultOptions (Some ?r) [''Colour''] =
     Some (Inr (MkSchema ''string'' [] None [(''red'', ''red''), (''blue'', ''blue'')] [] False None
                  [] [] False [] [] None False (Some colourEnum), Some colourEnum))"
    by (simp add: GenerateGoSchema_body_def NewSchemaRef_def colourEnum_def sampleHelpers_def
        defaultOptions_def skipOptionalPointerOf_def ext_names TypeSlice_def TypeIs_def Enum_def
        enumSchema_def oapiSchemaToGoType_def primitiveGoType_def enumNamesOf_def Let_def
        zeroSchema_def schema_setters)
  show ?thesis
    using enum_is_named_type [OF 1 2 3 4, of 0 "[''Colour'']"] 5 e
    by (simp del: GenerateGoSchema.simps)
qed

text \<open>
  Claim C5 as stated fails: a schema with enum values and no declared type is compiled
  by the rule for untyped schemas, to the alias \<^verbatim>\<open>interface{}\<close>.
\<close>

theorem enum_without_type_counterexample:
  "GenerateGoSchema (Suc 0) sampleHelpers defaultOptions
     (Some (NewSchemaRef [] (Some untypedEnum))) [''Colour''] =
     Some (Inr (MkSchema ''interface{}'' [] None [] [] False None [] [] True [] [] None True
                  (Some untypedEnum), Some untypedEnum)) \<and>
   oEnum untypedEnum = [LitString ''red'', LitString ''blue''] \<and>
   DefineViaAlias (MkSchema ''interface{}'' [] None [] [] False None [] [] True [] [] None True
                     (Some untypedEnum))"
  by (simp add: GenerateGoSchema_body_def NewSchemaRef_def untypedEnum_def sampleHelpers_def
      defaultOptions_def skipOptionalPointerOf_def ext_names TypeSlice_def TypeIs_def
      objectSchema_def applyGoTypeName_def PropertiesToMap_def zeroSchema_def schema_setters)

lemma primitiveGoType_cong:
  assumes "oFormat s1 = oFormat s2" and "oItems s1 = oItems s2"
    and "\<And>x. x \<noteq> ''null'' \<Longrightarrow> TypeIs s1 x = TypeIs s2 x"
  shows "primitiveGoType gen h opts s1 t path outSchema =
         primitiveGoType gen h opts s2 t path outSchema"
proof -
  have "TypeIs s1 ''array'' = TypeIs s2 ''array''" "TypeIs s1 ''integer'' = TypeIs s2 ''integer''"
    "TypeIs s1 ''number'' = TypeIs s2 ''number''" "TypeIs s1 ''boolean'' = TypeIs s2 ''boolean''"
    "TypeIs s1 ''string'' = TypeIs s2 ''string''"
    by (simp_all add: assms(3))
  then show ?thesis
    unfolding primitiveGoType_def by (simp only: assms(1,2))
qed

lemma oapiSchemaToGoType_single:
  assumes "filter (\<lambda>t. t \<noteq> ''null'') (oType s) = [T]"
  shows "oapiSchemaToGoType gen h opts s path outSchema =
           (let schema = (if ''null'' \<in> set (oType s) then set_oNullable True s else s)
            in case primitiveGoType gen h opts schema [T] path outSchema of
                 None \<Rightarrow> None
               | Some (Inl e) \<Rightarrow> Some (Inl e)
               | Some (Inr out) \<Rightarrow> Some (Inr (out, schema)))"
proof -
  have "oType s \<noteq> []" using assms by auto
  then have "1 \<le> length (oType s)" by (cases "oType s") auto
  then show ?thesis
    unfolding oapiSchemaToGoType_def by (simp add: Let_def TypeSlice_def assms)
qed

lemma null_union_aux:
  assumes "T \<noteq> ''null''" and "ts = [T, ''null''] \<or> ts = [''null'', T]"
  shows "oapiSchemaToGoType gen h opts (set_oType ts schema) path outSchema =
         map_option (map_sum id (\<lambda>(out, s). (out, set_oType ts s)))
           (oapiSchemaToGoType gen h opts (set_oNullable True (set_oType [T] schema)) path
              outSchema)"
proof -
  let ?s1 = "set_oType ts schema" and ?s2 = "set_oNullable True (set_oType [T] schema)"
  have f1: "filter (\<lambda>t. t \<noteq> ''null'') (oType ?s1) = [T]"
    and f2: "filter (\<lambda>t. t \<noteq> ''null'') (oType ?s2) = [T]"
    and n1: "''null'' \<in> set (oType ?s1)" and n2: "''null'' \<notin> set (oType ?s2)"
    using assms by auto
  have e: "set_oNullable True ?s1 = set_oType ts ?s2"
    by (simp add: set_oType_Nullable_commute)
  have c: "primitiveGoType gen h opts (set_oType ts ?s2) [T] path outSchema =
           primitiveGoType gen h opts ?s2 [T] path outSchema"
    using assms by (intro primitiveGoType_cong) (auto simp: TypeIs_def)
  have l: "oapiSchemaToGoType gen h opts ?s1 path outSchema =
             (case primitiveGoType gen h opts ?s2 [T] path outSchema of
                None \<Rightarrow> None
              | Some (Inl e) \<Rightarrow> Some (Inl e)
              | Some (Inr out) \<Rightarrow> Some (Inr (out, set_oType ts ?s2)))"
    unfolding oapiSchemaToGoType_single [OF f1] using n1 by (simp only: Let_def if_True e c)
  have r: "oapiSchemaToGoType gen h opts ?s2 path outSchema =
             (case primitiveGoType gen h opts ?s2 [T] path outSchema of
                None \<Rightarrow> None
              | Some (Inl e) \<Rightarrow> Some (Inl e)
              | Some (Inr out) \<Rightarrow> Some (Inr (out, ?s2)))"
    unfolding oapiSchemaToGoType_single [OF f2] using n2 by (simp only: Let_def if_False)
  show ?thesis
    unfolding l r
    by (cases "primitiveGoType gen h opts ?s2 [T] path outSchema")
      (auto split: sum.splits)
qed

text \<open>
  Claim C4. For a type \<open>T\<close> other than \<^verbatim>\<open>null\<close>, compiling the type set of \<open>T\<close> and
  \<^verbatim>\<open>null\<close> gives the same descriptor, or the same error, as compiling type \<open>T\<close> with
  the nullable flag set, and the schema is left with its nullable flag set.
\<close>

theorem null_union_collapse:
  assumes "T \<noteq> ''null''" and "ts = [T, ''null''] \<or> ts = [''null'', T]"
  shows "map_option (map_sum id fst)
           (oapiSchemaToGoType gen h opts (set_oType ts schema) path outSchema) =
         map_option (map_sum id fst)
           (oapiSchemaToGoType gen h opts (set_oNullable True (set_oType [T] schema)) path
              outSchema) \<and>
         (\<forall>out s. oapiSchemaToGoType gen h opts (set_oType ts schema) path outSchema =
                     Some (Inr (out, s)) \<longrightarrow>
                   oNullable s \<and>
                   oapiSchemaToGoType gen h opts (set_oNullable True (set_oType [T] schema))
                     path outSchema =
                     Some (Inr (out, set_oNullable True (set_oType [T] schema))))"
proof -
  let ?s2 = "set_oNullable True (set_oType [T] schema)"
  have f2: "filter (\<lambda>t. t \<noteq> ''null'') (oType ?s2) = [T]"
    and n2: "''null'' \<notin> set (oType ?s2)"
    using assms by auto
  have r: "oapiSchemaToGoType gen h opts ?s2 path outSchema =
             (case primitiveGoType gen h opts ?s2 [T] path outSchema of
                None \<Rightarrow> None
              | Some (Inl e) \<Rightarrow> Some (Inl e)
              | Some (Inr out) \<Rightarrow> Some (Inr (out, ?s2)))"
    unfolding oapiSchemaToGoType_single [OF f2] using n2 by (simp only: Let_def if_False)
  show ?thesis
    unfolding null_union_aux [OF assms] r
    by (cases "primitiveGoType gen h opts ?s2 [T] path outSchema")
      (auto split: sum.splits)
qed

theorem null_union_collapse_witness:
  "oapiSchemaToGoType (\<lambda>sref path. None) sampleHelpers defaultOptions
     (set_oType [''string'', ''null''] zeroOSchema) [''Pet'', ''name''] zeroSchema =
     Some (Inr (MkSchema ''string'' [] None [] [] False None [] [] False [] [] None True None,
                MkOSchema 0 [''string'', ''null''] [] [] True None None None [] False None None
                  None None None None None None [])) \<and>
   oapiSchemaToGoType (\<lambda>sref path. None) sampleHelpers defaultOptions
     (set_oNullable True (set_oType [''string''] zeroOSchema)) [''Pet'', ''name''] zeroSchema =
     Some (Inr (MkSchema ''string'' [] None [] [] False None [] [] False [] [] None True None,
                MkOSchema 0 [''string''] [] [] True None None None [] False None None
                  None None None None None None []))"
proof -
  have e: "oapiSchemaToGoType (\<lambda>sref path. None) sampleHelpers defaultOptions
     (set_oType [''string'', ''null''] zeroOSchema) [''Pet'', ''name''] zeroSchema =
     Some (Inr (MkSchema ''string'' [] None [] [] False None [] [] False [] [] None True None,
                MkOSchema 0 [''string'', ''null''] [] [] True None None None [] False None None
                  None None None None None None []))"
    by (simp add: oapiSchemaToGoType_def primitiveGoType_def TypeSlice_def TypeIs_def Let_def
        zeroOSchema_def zeroSchema_def set_oType_def set_oNullable_def schema_setters)
  have t: "''string'' \<noteq> ''null''" by simp
  show ?thesis
    using null_union_collapse [OF t, of "[''string'', ''null'']" "\<lambda>sref path. None"
        sampleHelpers defaultOptions zeroOSchema "[''Pet'', ''name'']" zeroSchema] e
    by (simp add: zeroOSchema_def set_oType_def set_oNullable_def)
qed

subsection \<open>Composition with allOf\<close>

lemma GenerateGoSchema_allOf:
  assumes "Value sref = Some schema"
    and "\<not> IsGoTypeReference h (Ref sref)"
    and "skipOptionalPointerOf opts schema = Inr skip"
    and "oAllOf schema = Some allOfRefs"
  shows "GenerateGoSchema (Suc n) h opts (Some sref) path =
           allOfSchema (GenerateGoSchema n h opts) h opts schema allOfRefs path"
  using assms by (simp add: GenerateGoSchema_body_def Let_def)

lemma mergeSchemas_single: "mergeSchemas gen [only] path = gen (Some only) path"
  by (simp add: mergeSchemas_def)

text \<open>
  Claim C3, as the code has it. Merging a list of one schema is compiling that schema.
  Compiling a schema whose allOf has one element gives, with the new merge and unless
  the element is a reference at the top level, the descriptor of the element with
  \<^verbatim>\<open>OAPISchema\<close> set to the enclosing schema; when the element is a reference and the
  path has at most one segment, it gives a struct that embeds the referenced type.
\<close>

theorem singleton_allOf:
  "mergeSchemas gen [only] path = gen (Some only) path \<and>
   (Value sref = Some schema \<and> \<not> IsGoTypeReference h (Ref sref) \<and>
    skipOptionalPointerOf opts schema = Inr skip \<and> oAllOf schema = Some [only] \<and>
    \<not> OldMergeSchemas opts \<and> \<not> (Ref only \<noteq> [] \<and> length path \<le> 1) \<longrightarrow>
    GenerateGoSchema (Suc n) h opts (Some sref) path =
      (case GenerateGoSchema n h opts (Some only) path of
         None \<Rightarrow> None
       | Some (Inl e) \<Rightarrow> Some (Inl (Wrap ''error merging schemas'' e))
       | Some (Inr (s, node)) \<Rightarrow> Some (Inr (set_OAPISchema (Some schema) s, Some schema)))) \<and>
   (Value sref = Some schema \<and> \<not> IsGoTypeReference h (Ref sref) \<and>
    skipOptionalPointerOf opts schema = Inr skip \<and> oAllOf schema = Some [only] \<and>
    Ref only \<noteq> [] \<and> length path \<le> 1 \<and> RefPathToGoType h (Ref only) = Inr refTypeName \<and>
    GenerateGoSchema n h opts (Some only) path = Some (Inr (referencedSchema, node)) \<longrightarrow>
    GenerateGoSchema (Suc n) h opts (Some sref) path =
      Some (Inr (MkSchema (Join [''struct {'', ''    '' @ refTypeName, ''}''] [nl]) [] None [] []
                   False None (AdditionalTypes referencedSchema) [refTypeName] False
                   (oDescription schema) [] None False (Some schema), Some schema)))"
proof (intro conjI impI)
  show "mergeSchemas gen [only] path = gen (Some only) path"
    by (rule mergeSchemas_single)
next
  assume a: "Value sref = Some schema \<and> \<not> IsGoTypeReference h (Ref sref) \<and>
    skipOptionalPointerOf opts schema = Inr skip \<and> oAllOf schema = Some [only] \<and>
    \<not> OldMergeSchemas opts \<and> \<not> (Ref only \<noteq> [] \<and> length path \<le> 1)"
  then have g: "GenerateGoSchema (Suc n) h opts (Some sref) path =
           allOfSchema (GenerateGoSchema n h opts) h opts schema [only] path"
    by (intro GenerateGoSchema_allOf) auto
  show "GenerateGoSchema (Suc n) h opts (Some sref) path =
      (case GenerateGoSchema n h opts (Some only) path of
         None \<Rightarrow> None
       | Some (Inl e) \<Rightarrow> Some (Inl (Wrap ''error merging schemas'' e))
       | Some (Inr (s, node)) \<Rightarrow> Some (Inr (set_OAPISchema (Some schema) s, Some schema)))"
    unfolding g allOfSchema_def MergeSchemas_def mergeSchemas_single
    using a by (auto simp: Let_def split: option.splits sum.splits prod.splits)
next
  assume a: "Value sref = Some schema \<and> \<not> IsGoTypeReference h (Ref sref) \<and>
    skipOptionalPointerOf opts schema = Inr skip \<and> oAllOf schema = Some [only] \<and>
    Ref only \<noteq> [] \<and> length path \<le> 1 \<and> RefPathToGoType h (Ref only) = Inr refTypeName \<and>
    GenerateGoSchema n h opts (Some only) path = Some (Inr (referencedSchema, node))"
  then have g: "GenerateGoSchema (Suc n) h opts (Some sref) path =
           allOfSchema (GenerateGoSchema n h opts) h opts schema [only] path"
    by (intro GenerateGoSchema_allOf) auto
  show "GenerateGoSchema (Suc n) h opts (Some sref) path =
      Some (Inr (MkSchema (Join [''struct {'', ''    '' @ refTypeName, ''}''] [nl]) [] None [] []
                   False None (AdditionalTypes referencedSchema) [refTypeName] False
                   (oDescription schema) [] None False (Some schema), Some schema))"
    unfolding g allOfSchema_def
    using a
    by (simp add: Let_def GenStructFromSchema_def GenFieldsFromProperties_def enumerate_eq_zip
        zeroSchema_def schema_setters)
qed

theorem singleton_allOf_witness:
  "GenerateGoSchema (Suc (Suc 0)) sampleHelpers defaultOptions
     (Some (NewSchemaRef [] (Some nameAllOf))) [''Pet'', ''name''] =
     Some (Inr (MkSchema ''string'' [] None [] [] False None [] [] False [] [] None True
                  (Some nameAllOf), Some nameAllOf)) \<and>
   GenerateGoSchema (Suc 0) sampleHelpers defaultOptions
     (Some (NewSchemaRef [] (Some (set_oType [''string''] zeroOSchema)))) [''Pet'', ''name''] =
     Some (Inr (MkSchema ''string'' [] None [] [] False None [] [] False [] [] None True
                  (Some (set_oType [''string''] zeroOSchema)),
                Some (set_oType [''string''] zeroOSchema))) \<and>
   GenerateGoSchema (Suc (Suc 0)) sampleHelpers defaultOptions
     (Some (NewSchemaRef [] (Some petAllOf))) [''Pet''] =
     Some (Inr (MkSchema (Join [''struct {'', ''    Base'', ''}''] [nl]) [] None [] [] False None []
                  [''Base''] False [] [] None False (Some petAllOf), Some petAllOf))"
proof -
  let ?str = "NewSchemaRef [] (Some (set_oType [''string''] zeroOSchema))"
  let ?r1 = "NewSchemaRef [] (Some nameAllOf)" and ?r2 = "NewSchemaRef [] (Some petAllOf)"
  have e1: "GenerateGoSchema (Suc 0) sampleHelpers defaultOptions (Some ?str) [''Pet'', ''name''] =
     Some (Inr (MkSchema ''string'' [] None [] [] False None [] [] False [] [] None True
                  (Some (set_oType [''string''] zeroOSchema)),
                Some (set_oType [''string''] zeroOSchema)))"
    by (simp add: GenerateGoSchema_body_def NewSchemaRef_def sampleHelpers_def
        defaultOptions_def skipOptionalPointerOf_def ext_names TypeSlice_def TypeIs_def Enum_def
        primitiveSchema_def oapiSchemaToGoType_def primitiveGoType_def Let_def
        zeroOSchema_def set_oType_def zeroSchema_def schema_setters)
  have e2: "GenerateGoSchema (Suc 0) sampleHelpers defaultOptions (Some baseRef) [''Pet''] =
     Some (Inr (MkSchema ''Base'' ''Base'' None [] [] False None [] [] False [] [] None True
                  (Some (set_oType [''object''] zeroOSchema)),
                Some (set_oType [''object''] zeroOSchema)))"
    by (simp add: GenerateGoSchema_body_def NewSchemaRef_def sampleHelpers_def baseRef_def
        defaultOptions_def skipOptionalPointerOf_def ext_names referenceSchema_def TrimPrefix_def
        zeroOSchema_def set_oType_def)
  have h1: "Value ?r1 = Some nameAllOf \<and> \<not> IsGoTypeReference sampleHelpers (Ref ?r1) \<and>
    skipOptionalPointerOf defaultOptions nameAllOf = Inr False \<and> oAllOf nameAllOf = Some [?str] \<and>
    \<not> OldMergeSchemas defaultOptions \<and> \<not> (Ref ?str \<noteq> [] \<and> length [''Pet'', ''name''] \<le> 1)"
    by (simp add: NewSchemaRef_def sampleHelpers_def skipOptionalPointerOf_def nameAllOf_def
        defaultOptions_def)
  have h2: "Value ?r2 = Some petAllOf \<and> \<not> IsGoTypeReference sampleHelpers (Ref ?r2) \<and>
    skipOptionalPointerOf defaultOptions petAllOf = Inr False \<and> oAllOf petAllOf = Some [baseRef] \<and>
    Ref baseRef \<noteq> [] \<and> length [''Pet''] \<le> 1 \<and>
    RefPathToGoType sampleHelpers (Ref baseRef) = Inr ''Base''"
    by (simp add: NewSchemaRef_def sampleHelpers_def skipOptionalPointerOf_def petAllOf_def
        defaultOptions_def baseRef_def TrimPrefix_def)
  have d: "oDescription petAllOf = []" by (simp add: petAllOf_def)
  show ?thesis
    using singleton_allOf [where gen = "\<lambda>r p. None" and only = ?str and sref = ?r1 and schema = nameAllOf and
        h = sampleHelpers and opts = defaultOptions and skip = False and
        path = "[''Pet'', ''name'']" and n = "Suc 0"] h1 e1
      singleton_allOf [where gen = "\<lambda>r p. None" and only = baseRef and sref = ?r2 and
        schema = petAllOf and h = sampleHelpers and opts = defaultOptions and skip = False and
        path = "[''Pet'']" and n = "Suc 0" and refTypeName = "''Base''" and
        referencedSchema = "MkSchema ''Base'' ''Base'' None [] [] False None [] [] False [] []
           None True (Some (set_oType [''object''] zeroOSchema))" and
        node = "Some (set_oType [''object''] zeroOSchema)"] h2 e2
    by (simp add: set_OAPISchema_def d del: GenerateGoSchema.simps)
qed

text \<open>
  Claim C3 as stated fails: the top-level schema \<^verbatim>\<open>Pet\<close> with the single allOf element
  \<^verbatim>\<open>$ref: '#/components/schemas/Base'\<close> compiles to a struct embedding \<^verbatim>\<open>Base\<close>,
  while the reference itself compiles to the alias \<^verbatim>\<open>Base\<close>.
\<close>

theorem singleton_allOf_counterexample:
  "GenerateGoSchema (Suc (Suc 0)) sampleHelpers defaultOptions
     (Some (NewSchemaRef [] (Some petAllOf))) [''Pet''] =
     Some (Inr (MkSchema (''struct {'' @ [nl] @ ''    Base'' @ [nl] @ ''}'') [] None [] [] False
                  None [] [''Base''] False [] [] None False (Some petAllOf), Some petAllOf)) \<and>
   oAllOf petAllOf = Some [baseRef] \<and>
   GenerateGoSchema (Suc (Suc 0)) sampleHelpers defaultOptions (Some baseRef) [''Pet''] =
     Some (Inr (MkSchema ''Base'' ''Base'' None [] [] False None [] [] False [] [] None True
                  (Some (set_oType [''object''] zeroOSchema)),
                Some (set_oType [''object''] zeroOSchema)))"
  by (simp add: GenerateGoSchema_body_def NewSchemaRef_def sampleHelpers_def baseRef_def
        petAllOf_def allOfSchema_def isComposed_def
        defaultOptions_def skipOptionalPointerOf_def ext_names referenceSchema_def TrimPrefix_def
        GenStructFromSchema_def GenFieldsFromProperties_def enumerate_eq_zip
        zeroOSchema_def set_oType_def zeroSchema_def schema_setters)






lemma oschema_props_sel [simp]:
  "oProperties (set_oProperties v1 s) = v1" "oProperties (set_oRequired v2 s) = oProperties s"
  "oRequired (set_oRequired v2 s) = v2" "oRequired (set_oProperties v1 s) = oRequired s"
  by (simp_all add: set_oProperties_def set_oRequired_def)

lemma PropertiesToMap_None [simp]: "(PropertiesToMap s = None) = (oProperties s = None)"
  by (simp add: PropertiesToMap_def split: option.splits)






subsection \<open>Discriminated unions\<close>

lemma Discriminator_inline [simp]:
  "Discriminator (snd (snd (inlineUnionElement h p i es used out))) = Discriminator out"
  by (simp add: inlineUnionElement_def Let_def)

lemma Discriminator_addUnionElement [simp]:
  "Discriminator (addUnionElement es out) = Discriminator out"
  by (simp add: addUnionElement_def)

lemma Discriminator_mapVariant [simp]:
  "Discriminator (mapVariant key goType od out) =
     Some (MkDiscriminator (AList.update key goType (Mapping od)) (Property od))"
  by (simp add: mapVariant_def)








subsection \<open>Pruning\<close>

lemma stringInSlice_set: "stringInSlice a list \<longleftrightarrow> a \<in> set list"
  by (induction list) auto

lemma markSchema_mono: "set refs \<subseteq> set (markSchema k refs)"
  by (auto simp: markSchema_def Let_def)

lemma markSchema_in: "''#/components/schemas/'' @ k \<in> set (markSchema k refs)"
  by (simp add: markSchema_def Let_def stringInSlice_set del: append.simps)

lemma fold_markSchema_mono: "set refs \<subseteq> set (fold (\<lambda>kv. markSchema (fst kv)) m refs)"
proof (induction m arbitrary: refs)
  case Nil
  show ?case by simp
next
  case (Cons kv m)
  show ?case using markSchema_mono [of refs "fst kv"] Cons [of "markSchema (fst kv) refs"]
    by auto
qed

lemma fold_markSchema_in:
  "kv \<in> set m \<Longrightarrow> ''#/components/schemas/'' @ fst kv \<in> set (fold (\<lambda>kv. markSchema (fst kv)) m refs)"
proof (induction m arbitrary: refs)
  case Nil
  then show ?case by simp
next
  case (Cons x m)
  show ?case
  proof (cases "kv = x")
    case True
    then show ?thesis
      using markSchema_in [of "fst x" refs]
        fold_markSchema_mono [of "markSchema (fst x) refs" m]
      by (auto simp del: append.simps)
  next
    case False
    then show ?thesis using Cons by simp
  qed
qed

lemma schemas_marked:
  "Components t = Some c \<Longrightarrow> kv \<in> set (Schemas c) \<Longrightarrow>
   stringInSlice (''#/components/schemas/'' @ fst kv) (findComponentRefs (Some t))"
  using fold_markSchema_in [of kv "Schemas c"]
  by (simp add: findComponentRefs_def stringInSlice_set del: append.simps)

lemma retained_all: "\<forall>kv\<in>set m. stringInSlice (p @ fst kv) refs \<Longrightarrow> retained p refs m = m"
  by (simp add: retained_def)

lemma orphans_0: "orphans p refs m = 0 \<longleftrightarrow> (\<forall>kv\<in>set m. stringInSlice (p @ fst kv) refs)"
  by (simp add: orphans_def filter_empty_conv)


lemma removeOrphanedComponents_step:
  assumes "removeOrphanedComponents (Some t) (findComponentRefs (Some t)) = (sw, n)"
  shows "\<exists>t'. sw = Some t' \<and> Paths t' = Paths t \<and>
           map_option Schemas (Components t') = map_option Schemas (Components t) \<and>
           map_option SecuritySchemes (Components t') =
             map_option SecuritySchemes (Components t) \<and>
           (n = 0 \<longrightarrow> t' = t)"
proof (cases "Components t")
  case None
  then show ?thesis using assms by (auto simp: removeOrphanedComponents_def)
next
  case (Some c)
  have s: "retained ''#/components/schemas/'' (findComponentRefs (Some t)) (Schemas c) = Schemas c"
    using schemas_marked [OF Some] by (intro retained_all) blast
  show ?thesis
    using assms Some s
    by (auto simp: removeOrphanedComponents_def orphans_0 retained_all simp del: append.simps)
qed

lemma removeOrphanedComponents_zero:
  assumes "snd (removeOrphanedComponents (Some t) refs) = 0" and "Components t = Some c"
  shows "(\<forall>kv\<in>set (Schemas c). stringInSlice (''#/components/schemas/'' @ fst kv) refs) \<and>
         (\<forall>kv\<in>set (Parameters c). stringInSlice (''#/components/parameters/'' @ fst kv) refs) \<and>
         (\<forall>kv\<in>set (RequestBodies c).
             stringInSlice (''#/components/requestBodies/'' @ fst kv) refs) \<and>
         (\<forall>kv\<in>set (Responses c). stringInSlice (''#/components/responses/'' @ fst kv) refs) \<and>
         (\<forall>kv\<in>set (Headers c). stringInSlice (''#/components/headers/'' @ fst kv) refs) \<and>
         (\<forall>kv\<in>set (Examples c). stringInSlice (''#/components/examples/'' @ fst kv) refs) \<and>
         (\<forall>kv\<in>set (Links c). stringInSlice (''#/components/links/'' @ fst kv) refs) \<and>
         (\<forall>kv\<in>set (Callbacks c). stringInSlice (''#/components/callbacks/'' @ fst kv) refs)"
  using assms by (simp add: removeOrphanedComponents_def orphans_0 del: append.simps)

lemma pruneUnusedComponents_inv:
  "swagger = Some doc \<Longrightarrow>
   \<exists>t. pruneUnusedComponents swagger = Some t \<and>
       removeOrphanedComponents (Some t) (findComponentRefs (Some t)) = (Some t, 0) \<and>
       Paths t = Paths doc \<and>
       map_option Schemas (Components t) = map_option Schemas (Components doc) \<and>
       map_option SecuritySchemes (Components t) = map_option SecuritySchemes (Components doc)"
proof (induction swagger arbitrary: doc rule: pruneUnusedComponents.induct)
  case (1 swagger)
  let ?r = "removeOrphanedComponents (Some doc) (findComponentRefs (Some doc))"
  obtain t' where t': "fst ?r = Some t'" "Paths t' = Paths doc"
    "map_option Schemas (Components t') = map_option Schemas (Components doc)"
    "map_option SecuritySchemes (Components t') = map_option SecuritySchemes (Components doc)"
    "snd ?r = 0 \<longrightarrow> t' = doc"
    using removeOrphanedComponents_step [of doc "fst ?r" "snd ?r"] by auto
  have unfold: "pruneUnusedComponents (Some doc) =
      (if snd ?r < 1 then fst ?r else pruneUnusedComponents (fst ?r))"
    by (subst pruneUnusedComponents.simps) (simp add: Let_def)
  show ?case
  proof (cases "snd ?r < 1")
    case True
    then have z: "snd ?r = 0" by simp
    with t' have "t' = doc" by simp
    then have "?r = (Some doc, 0)" using t'(1) z by (simp add: prod_eq_iff)
    then show ?thesis using 1(2) unfold True t' \<open>t' = doc\<close> by simp
  next
    case False
    have f: "\<not> snd (removeOrphanedComponents swagger (findComponentRefs swagger)) < 1"
      and g: "fst (removeOrphanedComponents swagger (findComponentRefs swagger)) = Some t'"
      using False t'(1) 1(2) by simp_all
    from 1(1) [OF 1(2) refl refl f g] 1(2)
    obtain t where "pruneUnusedComponents (fst ?r) = Some t"
      "removeOrphanedComponents (Some t) (findComponentRefs (Some t)) = (Some t, 0)"
      "Paths t = Paths t'"
      "map_option Schemas (Components t) = map_option Schemas (Components t')"
      "map_option SecuritySchemes (Components t) = map_option SecuritySchemes (Components t')"
      by auto
    then show ?thesis using 1(2) unfold False t' by simp
  qed
qed

text \<open>
  Claim C2, amended. \<^verbatim>\<open>pruneUnusedComponents\<close> returns, and the document it returns is
  a fixed point: one more pass of \<^verbatim>\<open>removeOrphanedComponents\<close> deletes zero entries and
  leaves it unchanged. The paths, the component schemas and the security schemes are
  those of the input, and every parameter, request body, response, header, example,
  link and callback that is left has its reference string among the references
  \<^verbatim>\<open>findComponentRefs\<close> finds in the pruned document, so every entry of these kinds whose
  reference string was not recorded has been deleted.
\<close>

theorem prune_fixed_point:
  "\<exists>t. pruneUnusedComponents (Some doc) = Some t \<and>
       removeOrphanedComponents (Some t) (findComponentRefs (Some t)) = (Some t, 0) \<and>
       Paths t = Paths doc \<and>
       map_option Schemas (Components t) = map_option Schemas (Components doc) \<and>
       map_option SecuritySchemes (Components t) = map_option SecuritySchemes (Components doc) \<and>
       (\<forall>c. Components t = Some c \<longrightarrow>
          (\<forall>kv\<in>set (Parameters c).
              ''#/components/parameters/'' @ fst kv \<in> set (findComponentRefs (Some t))) \<and>
          (\<forall>kv\<in>set (RequestBodies c).
              ''#/components/requestBodies/'' @ fst kv \<in> set (findComponentRefs (Some t))) \<and>
          (\<forall>kv\<in>set (Responses c).
              ''#/components/responses/'' @ fst kv \<in> set (findComponentRefs (Some t))) \<and>
          (\<forall>kv\<in>set (Headers c).
              ''#/components/headers/'' @ fst kv \<in> set (findComponentRefs (Some t))) \<and>
          (\<forall>kv\<in>set (Examples c).
              ''#/components/examples/'' @ fst kv \<in> set (findComponentRefs (Some t))) \<and>
          (\<forall>kv\<in>set (Links c).
              ''#/components/links/'' @ fst kv \<in> set (findComponentRefs (Some t))) \<and>
          (\<forall>kv\<in>set (Callbacks c).
              ''#/components/callbacks/'' @ fst kv \<in> set (findComponentRefs (Some t))))"
proof -
  obtain t where t: "pruneUnusedComponents (Some doc) = Some t"
    "removeOrphanedComponents (Some t) (findComponentRefs (Some t)) = (Some t, 0)"
    "Paths t = Paths doc"
    "map_option Schemas (Components t) = map_option Schemas (Components doc)"
    "map_option SecuritySchemes (Components t) = map_option SecuritySchemes (Components doc)"
    using pruneUnusedComponents_inv [OF refl, of doc] by blast
  have "snd (removeOrphanedComponents (Some t) (findComponentRefs (Some t))) = 0"
    using t(2) by simp
  from removeOrphanedComponents_zero [OF this] t show ?thesis
    by (intro exI [of _ t]) (simp add: stringInSlice_set del: append.simps)
qed

theorem prune_fixed_point_witness:
  "pruneUnusedComponents (Some sampleDoc) = Some prunedDoc \<and>
   removeOrphanedComponents (Some prunedDoc) (findComponentRefs (Some prunedDoc)) =
     (Some prunedDoc, 0) \<and>
   map_option Parameters (Components prunedDoc) =
     Some [(''Limit'', Some (MkParameterRef [] (Some (MkParameter None [] []))))] \<and>
   ''#/components/parameters/Limit'' \<in> set (findComponentRefs (Some prunedDoc)) \<and>
   map_option Schemas (Components prunedDoc) = map_option Schemas (Components sampleDoc) \<and>
   map_option Examples (Components sampleDoc) = Some [(''E'', Some (MkExampleRef [] True))] \<and>
   map_option Examples (Components prunedDoc) = Some []"
proof -
  have e: "pruneUnusedComponents (Some sampleDoc) = Some prunedDoc"
    by code_simp
  have c: "map_option Parameters (Components prunedDoc) =
      Some [(''Limit'', Some (MkParameterRef [] (Some (MkParameter None [] []))))]"
    "map_option Examples (Components sampleDoc) = Some [(''E'', Some (MkExampleRef [] True))]"
    "map_option Examples (Components prunedDoc) = Some []"
    by (simp_all add: prunedDoc_def sampleDoc_def)
  from prune_fixed_point [of sampleDoc] e c(1) show ?thesis
    unfolding c(2,3) by force
qed

text \<open>
  Claim C2 as stated fails for schemas: the walk of \<open>orphanDoc\<close> records no reference,
  yet the schema \<^verbatim>\<open>Orphan\<close> is not deleted, because \<^verbatim>\<open>findComponentRefs\<close> marks every
  component schema as referenced.
\<close>

theorem prune_keeps_unrecorded_schema_counterexample:
  "walkSwagger recordRef (Some orphanDoc) [] = [] \<and>
   map_option Schemas (Components orphanDoc) =
     Some [(''Orphan'', Some (NewSchemaRef [] (Some idString)))] \<and>
   pruneUnusedComponents (Some orphanDoc) = Some orphanDoc"
  by code_simp

end
